theory Spec2Isabelle
  imports Complex_Main "HOL-Library.Word"
begin

section \<open>Capture driver of \<open>edge_computer/main.cpp\<close>\<close>

text \<open>
  The program is a driver around the RealSense SDK: it enumerates devices, starts a
  pipeline with a depth and a colour stream, drops 30 framesets, and then for each of
  \<open>num_frames\<close> framesets starts two threads that save the depth frame (after a chain of
  four SDK filters) and the colour frame, each with a text file of the frame's metadata.

  The SDK is not part of the program, nor is the platform it runs on. Everything they
  decide is a field of the record \<open>sdk\<close> below, and the functions of \<open>main.cpp\<close> are
  translated on top of it. What the threads do to the outside world is recorded as a
  list of events per thread.
\<close>

subsection \<open>The type \<open>int\<close>\<close>

text \<open>
  \<open>int\<close> has 32 bits and \<open>long\<close> 64 bits, as on 64-bit Linux. An \<open>int\<close> is a
  \<open>32 word\<close> read as a signed number; the product of two \<open>int\<close>s that leaves the range
  of \<open>int\<close> is undefined (\<open>None\<close>).
\<close>

type_synonym c_int = "32 word"

definition INT_MAX :: int where
  "INT_MAX = 2 ^ 31 - 1"

definition INT_MIN :: int where
  "INT_MIN = - (2 ^ 31)"

definition LONG_MAX :: int where
  "LONG_MAX = 2 ^ 63 - 1"

definition LONG_MIN :: int where
  "LONG_MIN = - (2 ^ 63)"

definition int_mul :: "c_int \<Rightarrow> c_int \<Rightarrow> c_int option" where
  "int_mul a b =
     (if INT_MIN \<le> sint a * sint b \<and> sint a * sint b \<le> INT_MAX then Some (a * b) else None)"

subsection \<open>Frames, as the program reads them\<close>

datatype rs2_stream = RS2_STREAM_DEPTH | RS2_STREAM_COLOR | RS2_STREAM_OTHER nat

datatype rs2_format = RS2_FORMAT_Z16 | RS2_FORMAT_RGB8

type_synonym byte = "8 word"

text \<open>
  A \<open>rs2::frame\<close>, with the getters the program calls. \<open>is_video_frame\<close> is the outcome of
  \<open>frame.as<rs2::video_frame>()\<close> (the test of the \<open>if\<close> in both save functions);
  \<open>frame_metadata\<close> lists the attributes the frame supports, by the numeric value of
  \<open>rs2_frame_metadata_value\<close>, with their values (\<open>rs2_metadata_type\<close> is \<open>long long\<close>).
\<close>

record frame =
  stream_type :: rs2_stream
  get_frame_number :: nat
  is_video_frame :: bool
  get_width :: c_int
  get_height :: c_int
  get_bytes_per_pixel :: c_int
  get_stride_in_bytes :: c_int
  get_data :: "byte list"
  frame_metadata :: "(nat \<times> int) list"

definition supports_frame_metadata :: "frame \<Rightarrow> nat \<Rightarrow> bool" where
  "supports_frame_metadata frm i = (map_of (frame_metadata frm) i \<noteq> None)"

text \<open>
  The SDK's \<open>get_frame_metadata\<close> raises on an attribute the frame does not support
  (\<open>None\<close> here); the program calls it only under \<open>supports_frame_metadata\<close>.
\<close>

definition get_frame_metadata :: "frame \<Rightarrow> nat \<Rightarrow> int option" where
  "get_frame_metadata frm i = map_of (frame_metadata frm) i"

record frameset =
  get_depth_frame :: frame
  get_color_frame :: frame

subsection \<open>Processing blocks\<close>

datatype filter_kind = Decimation_filter | Spatial_filter | Disparity_transform bool

datatype rs2_option = RS2_OPTION_FILTER_MAGNITUDE | RS2_OPTION_FILTER_SMOOTH_ALPHA
  | RS2_OPTION_FILTER_SMOOTH_DELTA | RS2_OPTION_HOLES_FILL

text \<open>
  A processing block is what the program constructs: its kind and the options the
  program has set on it, latest first. An option that was never set keeps the SDK's
  default. \<open>set_option\<close> takes a \<open>float\<close>; an option value is the number that the
  \<open>float\<close> passed stands for. The \<open>int\<close> 3 converts to the \<open>float\<close> 3 exactly; the
  literal \<open>0.6f\<close> is the binary32 number nearest to 0.6, which is
  \<open>10066330 / 2 ^ 24\<close>.
\<close>

definition float_0_6f :: rat where
  "float_0_6f = 10066330 / 2 ^ 24"

record rs2_filter =
  kind :: filter_kind
  options :: "(rs2_option \<times> rat) list"

definition new_filter :: "filter_kind \<Rightarrow> rs2_filter" where
  "new_filter k = \<lparr>kind = k, options = []\<rparr>"

definition set_option_rs2 :: "rs2_filter \<Rightarrow> rs2_option \<Rightarrow> rat \<Rightarrow> rs2_filter" where
  "set_option_rs2 f opt v = f\<lparr>options := (opt, v) # options f\<rparr>"

subsection \<open>Exceptions and the SDK\<close>

text \<open>
  \<open>rs2::error\<close> carries the failed function, its arguments and a message; any other
  exception is a \<open>std::exception\<close> with a message.
\<close>

datatype exn = Rs2_error string string string | Std_exception string

record stream_request =
  req_stream :: rs2_stream
  req_width :: nat
  req_height :: nat
  req_format :: rs2_format
  req_fps :: nat

text \<open>
  The SDK and the platform, as far as \<open>main.cpp\<close> calls them. \<open>query_devices\<close> is the number of devices
  found by \<open>ctx.query_devices()\<close>; \<open>enable_stream\<close> and \<open>pipe_start\<close> return the
  exception they raise, if any. \<open>wait_for_frames k\<close> is the outcome of the \<open>k\<close>-th call
  (from 0) of \<open>pipe.wait_for_frames()\<close> after the pipeline started: a frameset, or an
  exception. \<open>process block frame\<close> is \<open>block.process(frame)\<close>.
  \<open>RS2_FRAME_METADATA_COUNT\<close> and the two name tables are the SDK's, and differ
  between SDK versions.

  The platform: \<open>start_thread n\<close> is what the constructor of \<open>std::thread\<close> does in
  \<open>threads.emplace_back\<close> when the vector holds \<open>n\<close> threads: the thread starts
  (\<open>None\<close>), or a \<open>std::system_error\<close> with this message is raised and the vector is
  left as it was (no thread is joined before the loop has ended, so every thread
  started so far still holds its resources). \<open>can_open p\<close> tells whether the file system
  lets a file of path \<open>p\<close> be opened for writing. \<open>string_from_null\<close> is what the
  library does when a \<open>std::string\<close> is made from a null pointer, which the language
  leaves undefined: libstdc++ raises a \<open>std::logic_error\<close> with this message, \<open>None\<close>
  stands for a library that does not.

  Inside the two save functions the SDK is taken not to raise (\<open>process\<close> and the
  getters are total): an exception there would leave a thread function, which ends the
  process.
\<close>

record sdk =
  query_devices :: "exn + nat"
  enable_stream :: "stream_request \<Rightarrow> exn option"
  pipe_start :: "stream_request list \<Rightarrow> exn option"
  wait_for_frames :: "nat \<Rightarrow> exn + frameset"
  process :: "rs2_filter \<Rightarrow> frame \<Rightarrow> frame"
  rs2_stream_to_string :: "rs2_stream \<Rightarrow> string"
  rs2_frame_metadata_to_string :: "nat \<Rightarrow> string"
  RS2_FRAME_METADATA_COUNT :: nat
  start_thread :: "nat \<Rightarrow> string option"
  can_open :: "string \<Rightarrow> bool"
  string_from_null :: "string option"

subsection \<open>Printing integers\<close>

text \<open>\<open>operator<<\<close> on an integer prints it in decimal, with a minus sign when negative.\<close>

definition digit_char :: "nat \<Rightarrow> char" where
  "digit_char d = char_of (48 + d)"

function string_of_nat :: "nat \<Rightarrow> string" where
  "string_of_nat n =
     (if n < 10 then [digit_char n]
      else string_of_nat (n div 10) @ [digit_char (n mod 10)])"
  by pat_completeness auto
termination
  by (relation "measure (\<lambda>n. n)") auto

declare string_of_nat.simps [simp del]

definition string_of_int :: "int \<Rightarrow> string" where
  "string_of_int i = (if i < 0 then CHR ''-'' # string_of_nat (nat (- i)) else string_of_nat (nat i))"

definition endl :: string where
  "endl = [CHR 0x0A]"

subsection \<open>What a thread does\<close>

text \<open>
  The effects of the save functions, in program order:
  \<^item> \<open>Write_binary p d n\<close>: \<open>std::ofstream(p, binary)\<close> followed by \<open>write(d, n)\<close>,
    where \<open>n\<close> is \<open>None\<close> when the computation of the size overflowed;
  \<^item> \<open>Write_png p w h comp d stride\<close>: the call \<open>stbi_write_png(p, w, h, comp, d, stride)\<close>;
  \<^item> \<open>Write_text p s\<close>: a text file \<open>p\<close> opened, \<open>s\<close> streamed into it, closed;
  \<^item> \<open>Print s\<close>: \<open>s\<close> streamed to \<open>std::cout\<close>.
  An event is the call the program makes. Whether the file is written depends on the
  file system (\<open>can_open\<close>: the directories \<open>depth/\<close>, \<open>colour/\<close>, ... must exist);
  neither \<open>std::ofstream\<close> nor \<open>stbi_write_png\<close> raises when the file cannot be opened,
  and the program goes on the same.
\<close>

datatype event =
    Write_binary string "byte list" "int option"
  | Write_png string int int int "byte list" int
  | Write_text string string
  | Print string

fun written_path :: "event \<Rightarrow> string option" where
  "written_path (Write_binary p d n) = Some p"
| "written_path (Write_png p w h c d s) = Some p"
| "written_path (Write_text p s) = Some p"
| "written_path (Print s) = None"

subsection \<open>\<open>metadata_to_text\<close>\<close>

text \<open>
  The loop \<open>for (size_t i = 0; i < RS2_FRAME_METADATA_COUNT; i++)\<close>, returning what it
  streams into the file from index \<open>i\<close> on.
\<close>

function metadata_loop :: "sdk \<Rightarrow> frame \<Rightarrow> nat \<Rightarrow> string" where
  "metadata_loop s frm i =
     (if i < RS2_FRAME_METADATA_COUNT s then
        (if supports_frame_metadata frm i
         then (case get_frame_metadata frm i of
                 Some v \<Rightarrow> rs2_frame_metadata_to_string s i @ '','' @ string_of_int v @ endl
               | None \<Rightarrow> [])
         else []) @ metadata_loop s frm (i + 1)
      else [])"
  by pat_completeness auto
termination
  by (relation "measure (\<lambda>(s, frm, i). RS2_FRAME_METADATA_COUNT s - i)") auto

declare metadata_loop.simps [simp del]

definition metadata_to_text :: "sdk \<Rightarrow> frame \<Rightarrow> string \<Rightarrow> event" where
  "metadata_to_text s frm file_name =
     Write_text file_name
       (''Stream,'' @ rs2_stream_to_string s (stream_type frm) @ endl
        @ ''Metadata Attribute,Value'' @ endl
        @ metadata_loop s frm 0)"

subsection \<open>\<open>save_frame_depth_data\<close> and \<open>save_frame_color_data\<close>\<close>

definition save_frame_depth_data :: "sdk \<Rightarrow> string \<Rightarrow> frame \<Rightarrow> event list" where
  "save_frame_depth_data s pi_name frame0 =
     (let dec_filter = new_filter Decimation_filter;
          spat_filter = new_filter Spatial_filter;
          depth_to_disparity = new_filter (Disparity_transform True);
          disparity_to_depth = new_filter (Disparity_transform False);
          dec_filter = set_option_rs2 dec_filter RS2_OPTION_FILTER_MAGNITUDE 3;
          spat_filter = set_option_rs2 spat_filter RS2_OPTION_FILTER_SMOOTH_ALPHA float_0_6f;
          frame = process s dec_filter frame0;
          frame = process s depth_to_disparity frame;
          frame = process s spat_filter frame;
          frame = process s disparity_to_depth frame
      in if is_video_frame frame then
           (let image = frame;
                file_name = ''depth/'' @ pi_name @ ''_depth_''
                              @ string_of_nat (get_frame_number frame) @ ''.raw'';
                text_metadata_file = ''depth_metadata/'' @ pi_name @ ''_depth_metadata_''
                              @ string_of_nat (get_frame_number image) @ ''.txt''
            in [Write_binary file_name (get_data image)
                  (map_option sint
                     (Option.bind (int_mul (get_width image) (get_height image))
                        (\<lambda>wh. int_mul wh (get_bytes_per_pixel image)))),
                Print (''Saved '' @ file_name @ endl),
                metadata_to_text s image text_metadata_file])
         else [])"

definition save_frame_color_data :: "sdk \<Rightarrow> string \<Rightarrow> frame \<Rightarrow> event list" where
  "save_frame_color_data s pi_name frame =
     (if is_video_frame frame then
        (let image = frame;
             png_colour_file = ''colour/'' @ pi_name @ ''_colour_''
                           @ string_of_nat (get_frame_number frame) @ ''.png'';
             text_metadata_file = ''colour_metadata/'' @ pi_name @ ''_colour_metadata_''
                           @ string_of_nat (get_frame_number frame) @ ''.txt''
         in [Write_png png_colour_file (sint (get_width image)) (sint (get_height image))
               (sint (get_bytes_per_pixel image)) (get_data image)
               (sint (get_stride_in_bytes image)),
             Print (''Saved '' @ png_colour_file @ endl),
             metadata_to_text s image text_metadata_file])
      else [])"

subsection \<open>\<open>strtol\<close>\<close>

text \<open>
  \<open>strtol(nptr, &output, 10)\<close> of the C library: white space is skipped, then an optional
  sign, then the longest run of decimal digits; with no digit at all the result is 0; a
  value out of the range of \<open>long\<close> is clamped to \<open>LONG_MIN\<close> or \<open>LONG_MAX\<close>. The program
  never reads \<open>output\<close> (the end pointer) nor \<open>errno\<close>.
\<close>

definition isspace :: "char \<Rightarrow> bool" where
  "isspace c = (c = CHR '' '' \<or> (9 \<le> (of_char c :: nat) \<and> (of_char c :: nat) \<le> 13))"

definition isdigit :: "char \<Rightarrow> bool" where
  "isdigit c = (48 \<le> (of_char c :: nat) \<and> (of_char c :: nat) \<le> 57)"

fun strtol_digits :: "int \<Rightarrow> string \<Rightarrow> int" where
  "strtol_digits acc [] = acc"
| "strtol_digits acc (c # cs) =
     (if isdigit c then strtol_digits (acc * 10 + (of_char c - 48)) cs else acc)"

definition strtol :: "string \<Rightarrow> int" where
  "strtol nptr =
     (case dropWhile isspace nptr of
        [] \<Rightarrow> 0
      | c # cs \<Rightarrow>
          if c = CHR ''-'' then max LONG_MIN (- strtol_digits 0 cs)
          else if c = CHR ''+'' then min LONG_MAX (strtol_digits 0 cs)
          else min LONG_MAX (strtol_digits 0 (c # cs)))"

subsection \<open>\<open>main\<close>\<close>

text \<open>
  How the process ends: \<open>main\<close> returns a code; or \<open>std::terminate\<close> is called (the
  process aborts, no handler of \<open>main\<close> runs); or the program does something the language
  leaves undefined.
\<close>

datatype outcome = Exit int | Terminate | Undefined

definition EXIT_SUCCESS :: int where
  "EXIT_SUCCESS = 0"

definition EXIT_FAILURE :: int where
  "EXIT_FAILURE = 1"

text \<open>
  A run: how it ended, what \<open>main\<close> streamed to \<open>std::cerr\<close>, and the threads it started,
  in the order of \<open>threads.emplace_back\<close>, each as the events of its function. On
  \<open>Exit\<close> every thread was joined, so all its events happened; the threads run
  concurrently, and nothing is said about the order of events of different threads.
\<close>

record run =
  outcome :: outcome
  cerr :: string
  threads :: "event list list"

text \<open>The two handlers of the function-try-block of \<open>main\<close>.\<close>

fun handler :: "exn \<Rightarrow> run" where
  "handler (Rs2_error failed_function failed_args what) =
     \<lparr>outcome = Exit EXIT_FAILURE,
      cerr = ''RealSense error calling '' @ failed_function @ ''('' @ failed_args @ ''):''
             @ endl @ ''    '' @ what @ endl,
      threads = []\<rparr>"
| "handler (Std_exception what) =
     \<lparr>outcome = Exit EXIT_FAILURE, cerr = what @ endl, threads = []\<rparr>"

text \<open>
  An exception that leaves the body of \<open>main\<close> while the vector \<open>threads\<close> is alive
  destroys the vector before a handler is entered. The destructor of a \<open>std::thread\<close>
  that is still joinable calls \<open>std::terminate\<close>, and every thread in the vector is
  joinable until the loop at the end of \<open>main\<close> has joined it.
\<close>

definition unwind :: "event list list \<Rightarrow> exn \<Rightarrow> run" where
  "unwind ts e =
     (if ts = [] then handler e
      else \<lparr>outcome = Terminate, cerr = [], threads = ts\<rparr>)"

text \<open>\<open>for (auto i = 0; i < 30; ++i) pipe.wait_for_frames();\<close> with \<open>k\<close> the number
  of calls of \<open>wait_for_frames\<close> made so far; the result is that number after the loop.\<close>

function warm_up :: "sdk \<Rightarrow> int \<Rightarrow> nat \<Rightarrow> exn + nat" where
  "warm_up s i k =
     (if i < 30 then
        (case wait_for_frames s k of
           Inl e \<Rightarrow> Inl e
         | Inr data \<Rightarrow> warm_up s (i + 1) (k + 1))
      else Inr k)"
  by pat_completeness auto
termination
  by (relation "measure (\<lambda>(s, i, k). nat (30 - i))") auto

declare warm_up.simps [simp del]

text \<open>
  The capture loop \<open>for (auto i = 0; i < num_frames; ++i)\<close>. \<open>i\<close> is an \<open>int\<close> and
  \<open>num_frames\<close> a \<open>long\<close>: \<open>++i\<close> at \<open>INT_MAX\<close> is a signed overflow. Each of the two
  \<open>threads.emplace_back\<close> can raise (\<open>start_thread\<close>), and the exception leaves \<open>main\<close>
  like one of \<open>wait_for_frames\<close>.
\<close>

function capture_loop :: "sdk \<Rightarrow> string \<Rightarrow> int \<Rightarrow> int \<Rightarrow> nat \<Rightarrow> event list list \<Rightarrow> run" where
  "capture_loop s raspi_name num_frames i k ts =
     (if i < num_frames then
        (case wait_for_frames s k of
           Inl e \<Rightarrow> unwind ts e
         | Inr data \<Rightarrow>
             (case start_thread s (length ts) of
                Some what \<Rightarrow> unwind ts (Std_exception what)
              | None \<Rightarrow>
             (let ts1 = ts @ [save_frame_depth_data s raspi_name (get_depth_frame data)]
              in case start_thread s (length ts1) of
                Some what \<Rightarrow> unwind ts1 (Std_exception what)
              | None \<Rightarrow>
             (let ts2 = ts1 @ [save_frame_color_data s raspi_name (get_color_frame data)]
              in if i = INT_MAX then \<lparr>outcome = Undefined, cerr = [], threads = ts2\<rparr>
                 else capture_loop s raspi_name num_frames (i + 1) (k + 1) ts2))))
      else \<lparr>outcome = Exit EXIT_SUCCESS, cerr = [], threads = ts\<rparr>)"
  by pat_completeness auto
termination
  by (relation "measure (\<lambda>(s, raspi_name, num_frames, i, k, ts). nat (num_frames - i))") auto

declare capture_loop.simps [simp del]

text \<open>
  \<open>argv[j]\<close>: the \<open>j\<close>-th string of the command line, \<open>argv[0]\<close> being the program's
  name. \<open>argv[argc]\<close> is a null pointer and there is nothing behind it. \<open>strtol\<close> of a
  null pointer is undefined (the C library reads through it). \<open>std::string\<close> from a
  null pointer is \<open>string_from_null\<close>: the exception of libstdc++ is raised inside the
  function-try-block, before the vector \<open>threads\<close> exists, and reaches the handler for
  \<open>std::exception\<close>.
\<close>

definition arg :: "string list \<Rightarrow> nat \<Rightarrow> string option" where
  "arg argv j = (if j < length argv then Some (argv ! j) else None)"

definition undefined_run :: run where
  "undefined_run = \<lparr>outcome = Undefined, cerr = [], threads = []\<rparr>"

definition depth_request :: stream_request where
  "depth_request = \<lparr>req_stream = RS2_STREAM_DEPTH, req_width = 1280, req_height = 720,
                     req_format = RS2_FORMAT_Z16, req_fps = 15\<rparr>"

definition color_request :: stream_request where
  "color_request = \<lparr>req_stream = RS2_STREAM_COLOR, req_width = 424, req_height = 240,
                     req_format = RS2_FORMAT_RGB8, req_fps = 15\<rparr>"

definition main :: "sdk \<Rightarrow> string list \<Rightarrow> run" where
  "main s argv =
     (case query_devices s of
        Inl e \<Rightarrow> handler e
      | Inr devices \<Rightarrow>
          if devices = 0 then
            \<lparr>outcome = Exit EXIT_FAILURE, cerr = ''No RealSense devices found!'' @ endl,
             threads = []\<rparr>
          else
            (case enable_stream s depth_request of
               Some e \<Rightarrow> handler e
             | None \<Rightarrow>
            (case enable_stream s color_request of
               Some e \<Rightarrow> handler e
             | None \<Rightarrow>
            (case pipe_start s [depth_request, color_request] of
               Some e \<Rightarrow> handler e
             | None \<Rightarrow>
            (case arg argv 1 of
               None \<Rightarrow> undefined_run
             | Some a1 \<Rightarrow>
            (let num_frames = strtol a1 in
             case arg argv 2 of
               None \<Rightarrow>
                 (case string_from_null s of
                    None \<Rightarrow> undefined_run
                  | Some what \<Rightarrow> handler (Std_exception what))
             | Some raspi_name \<Rightarrow>
            (case warm_up s 0 0 of
               Inl e \<Rightarrow> handler e
             | Inr k \<Rightarrow> capture_loop s raspi_name num_frames 0 k [])))))))"

subsection \<open>Notions used to state the properties\<close>

text \<open>
  The four calls of \<open>process\<close> in \<open>save_frame_depth_data\<close>, as one function: the frame
  that the test \<open>frame.as<rs2::video_frame>()\<close> and all the writes look at.
\<close>

definition depth_chain :: "sdk \<Rightarrow> frame \<Rightarrow> frame" where
  "depth_chain s frame0 =
     foldl (\<lambda>frame block. process s block frame) frame0
       [set_option_rs2 (new_filter Decimation_filter) RS2_OPTION_FILTER_MAGNITUDE 3,
        new_filter (Disparity_transform True),
        set_option_rs2 (new_filter Spatial_filter) RS2_OPTION_FILTER_SMOOTH_ALPHA float_0_6f,
        new_filter (Disparity_transform False)]"

text \<open>The device was found, both streams were accepted and the pipeline started.\<close>

definition pipeline_started :: "sdk \<Rightarrow> bool" where
  "pipeline_started s =
     ((case query_devices s of Inl e \<Rightarrow> False | Inr devices \<Rightarrow> 0 < devices)
      \<and> enable_stream s depth_request = None
      \<and> enable_stream s color_request = None
      \<and> pipe_start s [depth_request, color_request] = None)"

text \<open>
  The two threads that one iteration of the capture loop starts when its call of
  \<open>wait_for_frames\<close> is the \<open>k\<close>-th; none when that call raises.
\<close>

definition spawned :: "sdk \<Rightarrow> string \<Rightarrow> nat \<Rightarrow> event list list" where
  "spawned s raspi_name k =
     (case wait_for_frames s k of
        Inl e \<Rightarrow> []
      | Inr data \<Rightarrow> [save_frame_depth_data s raspi_name (get_depth_frame data),
                    save_frame_color_data s raspi_name (get_color_frame data)])"

text \<open>
  Artifacts: a depth artifact is a \<open>.raw\<close> file (\<open>Write_binary\<close>), a colour artifact a
  \<open>.png\<close> file (\<open>Write_png\<close>). The artifacts written by a run are the files, not the
  calls: the paths the file system lets the threads open, each counted once however
  often it is written.
\<close>

fun depth_path :: "event \<Rightarrow> string option" where
  "depth_path (Write_binary p d n) = Some p"
| "depth_path e = None"

fun color_path :: "event \<Rightarrow> string option" where
  "color_path (Write_png p w h c d st) = Some p"
| "color_path e = None"

definition files_written :: "sdk \<Rightarrow> (event \<Rightarrow> string option) \<Rightarrow> run \<Rightarrow> string list" where
  "files_written s path_of r =
     remdups (filter (can_open s) (List.map_filter path_of (concat (threads r))))"

definition depth_artifacts :: "sdk \<Rightarrow> run \<Rightarrow> nat" where
  "depth_artifacts s r = length (files_written s depth_path r)"

definition color_artifacts :: "sdk \<Rightarrow> run \<Rightarrow> nat" where
  "color_artifacts s r = length (files_written s color_path r)"

text \<open>
  A run without undefined behaviour: \<open>main\<close> did not end in it, and no thread computed
  a size that overflowed.
\<close>

fun undefined_size :: "event \<Rightarrow> bool" where
  "undefined_size (Write_binary p d None) = True"
| "undefined_size e = False"

definition well_defined :: "run \<Rightarrow> bool" where
  "well_defined r = (outcome r \<noteq> Undefined \<and> \<not> list_ex undefined_size (concat (threads r)))"

definition written_paths :: "event list list \<Rightarrow> string list" where
  "written_paths ts = List.map_filter written_path (concat ts)"

subsection \<open>A small device, for concrete runs\<close>

definition example_frame :: "rs2_stream \<Rightarrow> nat \<Rightarrow> bool \<Rightarrow> frame" where
  "example_frame st n v =
     \<lparr>stream_type = st, get_frame_number = n, is_video_frame = v,
      get_width = 2, get_height = 1, get_bytes_per_pixel = 2, get_stride_in_bytes = 4,
      get_data = [1, 2, 3, 4], frame_metadata = [(0, 5), (3, - 7)]\<rparr>"

text \<open>
  One device; the \<open>k\<close>-th frameset has depth frame number \<open>k\<close> and colour frame
  number \<open>100 + k\<close>; the depth frame of frameset 31 is not a video frame; the filters
  return their input; every thread starts and every file can be opened; the library is
  libstdc++.
\<close>

definition example_sdk :: sdk where
  "example_sdk =
     \<lparr>query_devices = Inr 1,
      enable_stream = (\<lambda>r. None),
      pipe_start = (\<lambda>c. None),
      wait_for_frames = (\<lambda>k. Inr \<lparr>get_depth_frame = example_frame RS2_STREAM_DEPTH k (k \<noteq> 31),
                                     get_color_frame = example_frame RS2_STREAM_COLOR (100 + k) True\<rparr>),
      process = (\<lambda>block frame. frame),
      rs2_stream_to_string = (\<lambda>st. if st = RS2_STREAM_DEPTH then ''Depth'' else ''Color''),
      rs2_frame_metadata_to_string = (\<lambda>i. ''Attribute '' @ string_of_nat i),
      RS2_FRAME_METADATA_COUNT = 4,
      start_thread = (\<lambda>n. None),
      can_open = (\<lambda>p. True),
      string_from_null = Some ''basic_string: construction from null is not valid''\<rparr>"

text \<open>The same device, but the call of \<open>wait_for_frames\<close> number 31 raises.\<close>

definition stalling_sdk :: sdk where
  "stalling_sdk =
     example_sdk\<lparr>wait_for_frames :=
       (\<lambda>k. if k = 31
            then Inl (Rs2_error ''rs2_pipeline_wait_for_frames'' ''pipe:0x1''
                        ''Frame did not arrive in time'')
            else wait_for_frames example_sdk k)\<rparr>"

text \<open>The same device on a platform that lets the process hold two threads only.\<close>

definition cramped_sdk :: sdk where
  "cramped_sdk =
     example_sdk\<lparr>start_thread :=
       (\<lambda>n. if n < 2 then None else Some ''Resource temporarily unavailable'')\<rparr>"

text \<open>The same device, but every depth frame carries the frame number 7.\<close>

definition repeating_sdk :: sdk where
  "repeating_sdk =
     example_sdk\<lparr>wait_for_frames :=
       (\<lambda>k. Inr \<lparr>get_depth_frame = example_frame RS2_STREAM_DEPTH 7 True,
                   get_color_frame = example_frame RS2_STREAM_COLOR (100 + k) True\<rparr>)\<rparr>"

text \<open>The same device, started where there is no directory \<open>depth/\<close>.\<close>

definition no_depth_dir_sdk :: sdk where
  "no_depth_dir_sdk = example_sdk\<lparr>can_open := (\<lambda>p. take 6 p \<noteq> ''depth/'')\<rparr>"

section \<open>Properties\<close>

subsection \<open>Decimal printing\<close>

lemma string_of_nat_nonempty: "string_of_nat n \<noteq> []"
  by (subst string_of_nat.simps) simp

lemma digit_char_inj:
  assumes "a < 10" and "b < 10" and "digit_char a = digit_char b"
  shows "a = b"
proof -
  from assms(3) have "(of_char (digit_char a) :: nat) = of_char (digit_char b)"
    by simp
  with assms(1,2) show ?thesis
    by (simp add: digit_char_def)
qed

lemma string_of_nat_inj: "string_of_nat n = string_of_nat m \<Longrightarrow> n = m"
proof (induction n arbitrary: m rule: string_of_nat.induct)
  case (1 n)
  show ?case
  proof (cases "n < 10")
    case n: True
    show ?thesis
    proof (cases "m < 10")
      case True
      with n 1(2) show ?thesis
        by (simp add: string_of_nat.simps [of n] string_of_nat.simps [of m] digit_char_inj)
    next
      case False
      with n 1(2) string_of_nat_nonempty [of "m div 10"] show ?thesis
        by (simp add: string_of_nat.simps [of n] string_of_nat.simps [of m])
    qed
  next
    case n: False
    show ?thesis
    proof (cases "m < 10")
      case True
      with n 1(2) string_of_nat_nonempty [of "n div 10"] show ?thesis
        by (simp add: string_of_nat.simps [of n] string_of_nat.simps [of m])
    next
      case False
      with n 1(2) have a: "string_of_nat (n div 10) = string_of_nat (m div 10)"
        and b: "digit_char (n mod 10) = digit_char (m mod 10)"
        by (simp_all add: string_of_nat.simps [of n] string_of_nat.simps [of m])
      from 1(1) [OF n a] have "n div 10 = m div 10" .
      moreover from b have "n mod 10 = m mod 10"
        by (rule digit_char_inj [rotated 2]) simp_all
      ultimately show ?thesis
        by (metis div_mult_mod_eq)
    qed
  qed
qed

subsection \<open>The metadata file\<close>

lemma metadata_loop_closed:
  "metadata_loop s frm i =
     concat (map (\<lambda>j. rs2_frame_metadata_to_string s j @ '','' @
                       string_of_int (the (map_of (frame_metadata frm) j)) @ endl)
              (filter (supports_frame_metadata frm) [i..<RS2_FRAME_METADATA_COUNT s]))"
proof (induction s frm i rule: metadata_loop.induct)
  case (1 s frm i)
  show ?case
  proof (cases "i < RS2_FRAME_METADATA_COUNT s")
    case True
    then have up: "[i..<RS2_FRAME_METADATA_COUNT s] = i # [i + 1..<RS2_FRAME_METADATA_COUNT s]"
      by (simp add: upt_conv_Cons)
    show ?thesis
    proof (cases "supports_frame_metadata frm i")
      case sup: True
      then obtain v where v: "map_of (frame_metadata frm) i = Some v"
        by (auto simp: supports_frame_metadata_def)
      show ?thesis
        using True sup 1 [OF True]
        by (subst metadata_loop.simps) (simp add: up v get_frame_metadata_def)
    next
      case sup: False
      show ?thesis
        using True sup 1 [OF True]
        by (subst metadata_loop.simps) (simp add: up)
    qed
  next
    case False
    then show ?thesis
      by (subst metadata_loop.simps) simp
  qed
qed

text \<open>
  C6. The metadata file holds the line \<open>Stream,<name of the stream type>\<close>, the line
  \<open>Metadata Attribute,Value\<close>, and then, for the attribute kinds
  \<open>0, 1, ..., RS2_FRAME_METADATA_COUNT - 1\<close> in this order, one line
  \<open><name of the kind>,<value in decimal>\<close> for each kind the frame supports and
  nothing for a kind it does not support.
\<close>

theorem metadata_to_text_content:
  "metadata_to_text s frm file_name =
     Write_text file_name
       (''Stream,'' @ rs2_stream_to_string s (stream_type frm) @ [CHR 0x0A]
        @ ''Metadata Attribute,Value'' @ [CHR 0x0A]
        @ concat (map (\<lambda>i. rs2_frame_metadata_to_string s i @ '','' @
                            string_of_int (the (map_of (frame_metadata frm) i)) @ [CHR 0x0A])
                   (filter (\<lambda>i. map_of (frame_metadata frm) i \<noteq> None)
                      [0..<RS2_FRAME_METADATA_COUNT s])))"
proof -
  have "supports_frame_metadata frm = (\<lambda>i. map_of (frame_metadata frm) i \<noteq> None)"
    by (rule ext) (simp add: supports_frame_metadata_def)
  then show ?thesis
    by (simp add: metadata_to_text_def metadata_loop_closed endl_def)
qed

lemma metadata_wait_irrelevant:
  "metadata_to_text (s\<lparr>wait_for_frames := w\<rparr>) frm file_name = metadata_to_text s frm file_name"
  by (simp add: metadata_to_text_def metadata_loop_closed)

subsection \<open>The two save functions\<close>

lemma save_frame_depth_data_chain:
  "save_frame_depth_data s pi_name frame0 =
     (if is_video_frame (depth_chain s frame0) then
        [Write_binary (''depth/'' @ pi_name @ ''_depth_'' @ string_of_nat (get_frame_number (depth_chain s frame0)) @ ''.raw'')
           (get_data (depth_chain s frame0))
           (map_option sint
              (Option.bind (int_mul (get_width (depth_chain s frame0)) (get_height (depth_chain s frame0)))
                 (\<lambda>wh. int_mul wh (get_bytes_per_pixel (depth_chain s frame0))))),
         Print (''Saved '' @ ''depth/'' @ pi_name @ ''_depth_'' @ string_of_nat (get_frame_number (depth_chain s frame0)) @ ''.raw'' @ endl),
         metadata_to_text s (depth_chain s frame0)
           (''depth_metadata/'' @ pi_name @ ''_depth_metadata_'' @ string_of_nat (get_frame_number (depth_chain s frame0)) @ ''.txt'')]
      else [])"
  by (simp add: save_frame_depth_data_def depth_chain_def Let_def)

lemma float_0_6f_nearest: "\<bar>float_0_6f - 6 / 10\<bar> \<le> 1 / 2 ^ 25"
  by (simp add: float_0_6f_def)

text \<open>
  C4. \<open>save_frame_depth_data\<close> runs the frame through four processing blocks in this
  order: a decimation filter on which only the magnitude was set, to 3; the transform
  from depth to disparity; a spatial filter on which only the smoothing alpha was set,
  to the \<open>float\<close> \<open>0.6f\<close> (its delta and every other option at the SDK's default); the
  transform from disparity back to depth. The video-frame test, the frame number in
  both file names, the dumped buffer with its size (the \<open>int\<close> product of width, height
  and bytes per pixel, undefined when it overflows), and the metadata all come from the
  result of the fourth block, and nothing else is written. The \<open>float\<close> \<open>0.6f\<close> is
  \<open>10066330 / 2 ^ 24\<close>, within half a unit in the last place of 0.6.
\<close>

theorem depth_filter_chain_order:
  "save_frame_depth_data s pi_name frame0 =
     (let result =
        process s \<lparr>kind = Disparity_transform False, options = []\<rparr>
          (process s \<lparr>kind = Spatial_filter,
                      options = [(RS2_OPTION_FILTER_SMOOTH_ALPHA, 10066330 / 2 ^ 24)]\<rparr>
            (process s \<lparr>kind = Disparity_transform True, options = []\<rparr>
              (process s \<lparr>kind = Decimation_filter, options = [(RS2_OPTION_FILTER_MAGNITUDE, 3)]\<rparr>
                 frame0)))
      in if is_video_frame result then
           [Write_binary
              (''depth/'' @ pi_name @ ''_depth_'' @ string_of_nat (get_frame_number result) @ ''.raw'')
              (get_data result)
              (map_option sint
                 (Option.bind (int_mul (get_width result) (get_height result))
                    (\<lambda>wh. int_mul wh (get_bytes_per_pixel result)))),
            Print (''Saved depth/'' @ pi_name @ ''_depth_'' @ string_of_nat (get_frame_number result)
                   @ ''.raw'' @ [CHR 0x0A]),
            metadata_to_text s result
              (''depth_metadata/'' @ pi_name @ ''_depth_metadata_''
               @ string_of_nat (get_frame_number result) @ ''.txt'')]
         else [])
   \<and> \<bar>(10066330 / 2 ^ 24 :: rat) - 6 / 10\<bar> \<le> 1 / 2 ^ 25"
  using float_0_6f_nearest
  by (simp add: save_frame_depth_data_def new_filter_def set_option_rs2_def Let_def endl_def
      float_0_6f_def)

text \<open>
  C5. When the result of the filter chain is not a video frame,
  \<open>save_frame_depth_data\<close> has no effect at all; when the colour frame is not a video
  frame, \<open>save_frame_color_data\<close> has no effect at all: no file, no line on the output,
  and (both functions being total) no exception.
\<close>

theorem skip_non_video_frames:
  "(\<not> is_video_frame (depth_chain s depth) \<longrightarrow> save_frame_depth_data s pi_name depth = [])
   \<and> (\<not> is_video_frame color \<longrightarrow> save_frame_color_data s pi_name color = [])"
  by (simp add: save_frame_depth_data_chain save_frame_color_data_def)

theorem skip_non_video_frames_witness:
  "\<not> is_video_frame (depth_chain example_sdk (example_frame RS2_STREAM_DEPTH 31 False))
   \<and> save_frame_depth_data example_sdk ''pi'' (example_frame RS2_STREAM_DEPTH 31 False) = []
   \<and> \<not> is_video_frame (example_frame RS2_STREAM_COLOR 131 False)
   \<and> save_frame_color_data example_sdk ''pi'' (example_frame RS2_STREAM_COLOR 131 False) = []"
  using skip_non_video_frames [of example_sdk "example_frame RS2_STREAM_DEPTH 31 False" "''pi''"
      "example_frame RS2_STREAM_COLOR 131 False"]
  by (simp add: depth_chain_def example_sdk_def example_frame_def)

lemma save_wait_irrelevant:
  "save_frame_depth_data (s\<lparr>wait_for_frames := w\<rparr>) raspi_name frame = save_frame_depth_data s raspi_name frame"
  "save_frame_color_data (s\<lparr>wait_for_frames := w\<rparr>) raspi_name frame = save_frame_color_data s raspi_name frame"
  by (simp_all add: save_frame_depth_data_def save_frame_color_data_def
      metadata_wait_irrelevant Let_def)

lemma depth_paths_thread:
  "List.map_filter depth_path (save_frame_depth_data s raspi_name frame) =
     (if is_video_frame (depth_chain s frame)
      then [''depth/'' @ raspi_name @ ''_depth_''
              @ string_of_nat (get_frame_number (depth_chain s frame)) @ ''.raw'']
      else [])"
  "List.map_filter depth_path (save_frame_color_data s raspi_name frame) = []"
  by (simp_all add: save_frame_depth_data_chain save_frame_color_data_def metadata_to_text_def
      List.map_filter_def)

lemma color_paths_thread:
  "List.map_filter color_path (save_frame_depth_data s raspi_name frame) = []"
  "List.map_filter color_path (save_frame_color_data s raspi_name frame) =
     (if is_video_frame frame
      then [''colour/'' @ raspi_name @ ''_colour_''
              @ string_of_nat (get_frame_number frame) @ ''.png'']
      else [])"
  by (simp_all add: save_frame_depth_data_chain save_frame_color_data_def metadata_to_text_def
      List.map_filter_def)

lemma path_is_written:
  "depth_path e = Some p \<Longrightarrow> written_path e = Some p"
  "color_path e = Some p \<Longrightarrow> written_path e = Some p"
  by (cases e; simp)+

lemma set_map_filter: "set (List.map_filter f xs) = {y. \<exists>x \<in> set xs. f x = Some y}"
  by (induction xs) (auto simp: List.map_filter_def)

lemma paths_subset_written:
  "set (List.map_filter depth_path (concat ts)) \<subseteq> set (written_paths ts)"
  "set (List.map_filter color_path (concat ts)) \<subseteq> set (written_paths ts)"
  by (auto simp: written_paths_def set_map_filter dest: path_is_written)

lemma map_filter_append: "List.map_filter f (xs @ ys) = List.map_filter f xs @ List.map_filter f ys"
  by (simp add: List.map_filter_def)

lemma written_paths_append: "written_paths (a @ b) = written_paths a @ written_paths b"
  by (simp add: written_paths_def List.map_filter_def)

lemma written_paths_depth:
  "written_paths [save_frame_depth_data s raspi_name frame] =
     (if is_video_frame (depth_chain s frame) then
        [''depth/'' @ raspi_name @ ''_depth_''
           @ string_of_nat (get_frame_number (depth_chain s frame)) @ ''.raw'',
         ''depth_metadata/'' @ raspi_name @ ''_depth_metadata_''
           @ string_of_nat (get_frame_number (depth_chain s frame)) @ ''.txt'']
      else [])"
  by (simp add: written_paths_def save_frame_depth_data_chain metadata_to_text_def)

lemma written_paths_color:
  "written_paths [save_frame_color_data s raspi_name frame] =
     (if is_video_frame frame then
        [''colour/'' @ raspi_name @ ''_colour_''
           @ string_of_nat (get_frame_number frame) @ ''.png'',
         ''colour_metadata/'' @ raspi_name @ ''_colour_metadata_''
           @ string_of_nat (get_frame_number frame) @ ''.txt'']
      else [])"
  by (simp add: written_paths_def save_frame_color_data_def metadata_to_text_def)

subsection \<open>The threads of one iteration\<close>

lemma depth_paths_spawned:
  "\<forall>k \<in> set ks. wait_for_frames s k = Inr (fs k) \<Longrightarrow>
   List.map_filter depth_path (concat (concat (map (spawned s raspi_name) ks))) =
   map (\<lambda>k. ''depth/'' @ raspi_name @ ''_depth_''
              @ string_of_nat (get_frame_number (depth_chain s (get_depth_frame (fs k)))) @ ''.raw'')
     (filter (\<lambda>k. is_video_frame (depth_chain s (get_depth_frame (fs k)))) ks)"
  by (induction ks) (simp_all add: spawned_def map_filter_append depth_paths_thread)

lemma color_paths_spawned:
  "\<forall>k \<in> set ks. wait_for_frames s k = Inr (fs k) \<Longrightarrow>
   List.map_filter color_path (concat (concat (map (spawned s raspi_name) ks))) =
   map (\<lambda>k. ''colour/'' @ raspi_name @ ''_colour_''
              @ string_of_nat (get_frame_number (get_color_frame (fs k))) @ ''.png'')
     (filter (\<lambda>k. is_video_frame (get_color_frame (fs k))) ks)"
  by (induction ks) (simp_all add: spawned_def map_filter_append color_paths_thread)

lemma length_spawned:
  "\<forall>k \<in> set ks. \<exists>fs. wait_for_frames s k = Inr fs \<Longrightarrow>
   length (concat (map (spawned s raspi_name) ks)) = 2 * length ks"
  by (induction ks) (auto simp: spawned_def)

lemma written_paths_spawned:
  "wait_for_frames s k = Inr data \<Longrightarrow>
   written_paths (spawned s raspi_name k) =
     written_paths [save_frame_depth_data s raspi_name (get_depth_frame data)]
     @ written_paths [save_frame_color_data s raspi_name (get_color_frame data)]"
  by (simp add: spawned_def written_paths_def List.map_filter_def)

lemma written_paths_spawned_none:
  "wait_for_frames s k = Inl e \<Longrightarrow> written_paths (spawned s raspi_name k) = []"
  by (simp add: spawned_def written_paths_def)

lemma distinct_paths_spawned: "distinct (written_paths (spawned s raspi_name k))"
proof (cases "wait_for_frames s k")
  case (Inl e)
  then show ?thesis by (simp add: written_paths_spawned_none)
next
  case (Inr data)
  then show ?thesis
    by (auto simp: written_paths_spawned written_paths_depth written_paths_color)
qed

lemma disjoint_paths_spawned:
  assumes "wait_for_frames s j = Inr fj" and "wait_for_frames s k = Inr fk"
    and "get_frame_number (depth_chain s (get_depth_frame fj)) \<noteq>
         get_frame_number (depth_chain s (get_depth_frame fk))"
    and "get_frame_number (get_color_frame fj) \<noteq> get_frame_number (get_color_frame fk)"
  shows "set (written_paths (spawned s raspi_name j)) \<inter> set (written_paths (spawned s raspi_name k)) = {}"
  using assms(3,4)
  by (auto simp: written_paths_spawned [OF assms(1)] written_paths_spawned [OF assms(2)]
      written_paths_depth written_paths_color dest: string_of_nat_inj split: if_splits)

lemma distinct_paths_range:
  assumes "\<forall>j k fj fk. a \<le> j \<and> j < k \<and> wait_for_frames s j = Inr fj \<and> wait_for_frames s k = Inr fk
     \<longrightarrow> get_frame_number (depth_chain s (get_depth_frame fj))
           < get_frame_number (depth_chain s (get_depth_frame fk))
         \<and> get_frame_number (get_color_frame fj) < get_frame_number (get_color_frame fk)"
  shows "distinct (written_paths (concat (map (spawned s raspi_name) [a..<a + m])))"
proof (induction m)
  case 0
  show ?case by (simp add: written_paths_def)
next
  case (Suc m)
  let ?P = "written_paths (concat (map (spawned s raspi_name) [a..<a + m]))"
  let ?Q = "written_paths (spawned s raspi_name (a + m))"
  have split: "written_paths (concat (map (spawned s raspi_name) [a..<a + Suc m])) = ?P @ ?Q"
    by (simp add: written_paths_append)
  have mem: "\<exists>j. a \<le> j \<and> j < a + m \<and> p \<in> set (written_paths (spawned s raspi_name j))"
    if "p \<in> set ?P" for p
    using that
  proof (induction m)
    case 0
    then show ?case by (simp add: written_paths_def)
  next
    case (Suc m)
    then have "p \<in> set (written_paths (concat (map (spawned s raspi_name) [a..<a + m])))
       \<or> p \<in> set (written_paths (spawned s raspi_name (a + m)))"
      by (simp add: written_paths_append)
    with Suc.IH show ?case
      by (metis add_Suc_right le_add1 less_Suc_eq)
  qed
  have "set ?P \<inter> set ?Q = {}"
  proof (rule ccontr)
    assume "set ?P \<inter> set ?Q \<noteq> {}"
    then obtain p where p: "p \<in> set ?P" "p \<in> set ?Q" by auto
    from mem [OF p(1)] obtain j where j: "a \<le> j" "j < a + m"
      "p \<in> set (written_paths (spawned s raspi_name j))" by blast
    from j(3) obtain fj where fj: "wait_for_frames s j = Inr fj"
      by (cases "wait_for_frames s j") (simp_all add: written_paths_spawned_none)
    from p(2) obtain fk where fk: "wait_for_frames s (a + m) = Inr fk"
      by (cases "wait_for_frames s (a + m)") (simp_all add: written_paths_spawned_none)
    from assms j(1,2) fj fk
    have "get_frame_number (depth_chain s (get_depth_frame fj))
           < get_frame_number (depth_chain s (get_depth_frame fk))
         \<and> get_frame_number (get_color_frame fj) < get_frame_number (get_color_frame fk)"
      by blast
    then have "set (written_paths (spawned s raspi_name j)) \<inter> set ?Q = {}"
      using disjoint_paths_spawned [OF fj fk, of raspi_name] by simp
    with j(3) p(2) show False by auto
  qed
  with Suc.IH distinct_paths_spawned [of s raspi_name "a + m"] show ?case
    unfolding split by simp
qed

subsection \<open>The two loops of \<open>main\<close>\<close>

lemma warm_up_ok:
  "0 \<le> i \<Longrightarrow> i \<le> 30 \<Longrightarrow> \<forall>j. k \<le> j \<and> j < k + nat (30 - i) \<longrightarrow> (\<exists>fs. wait_for_frames s j = Inr fs)
   \<Longrightarrow> warm_up s i k = Inr (k + nat (30 - i))"
proof (induction "nat (30 - i)" arbitrary: i k)
  case 0
  then have "i = 30" by simp
  then show ?case by (subst warm_up.simps) simp
next
  case (Suc m)
  then have lt: "i < 30" by linarith
  from Suc.prems(3) lt obtain fs where fs: "wait_for_frames s k = Inr fs"
    by (metis le_refl less_add_same_cancel1 zero_less_nat_eq diff_gt_0_iff_gt)
  have m: "m = nat (30 - (i + 1))" using Suc.hyps(2) by linarith
  have rest: "\<forall>j. k + 1 \<le> j \<and> j < k + 1 + nat (30 - (i + 1)) \<longrightarrow> (\<exists>fs. wait_for_frames s j = Inr fs)"
    using Suc.prems(3) lt by (auto simp: nat_diff_distrib)
  have step: "warm_up s (i + 1) (k + 1) = Inr (k + 1 + nat (30 - (i + 1)))"
    using Suc.hyps(1) [OF m _ _ rest] Suc.prems(1) lt by simp
  have "k + 1 + nat (30 - (i + 1)) = k + nat (30 - i)"
    using lt by linarith
  with step fs lt show ?case
    by (subst warm_up.simps) simp
qed

lemma warm_up_30:
  assumes "\<forall>j<30. \<exists>fs. wait_for_frames s j = Inr fs"
  shows "warm_up s 0 0 = Inr 30"
proof -
  have "warm_up s 0 0 = Inr (0 + nat (30 - 0))"
    using assms by (intro warm_up_ok) auto
  then show ?thesis by simp
qed

lemma warm_up_result:
  "nat (30 - i) = d \<Longrightarrow> warm_up s i k = Inr k' \<Longrightarrow> k' = k + d"
proof (induction d arbitrary: i k)
  case 0
  then have "\<not> i < 30" by simp
  with 0(2) show ?case by (subst (asm) warm_up.simps) simp
next
  case (Suc d)
  then have lt: "i < 30" by linarith
  have d: "nat (30 - (i + 1)) = d" using Suc.prems(1) by linarith
  from Suc.prems(2) lt have "warm_up s (i + 1) (Suc k) = Inr k'"
    by (subst (asm) warm_up.simps) (simp split: sum.splits)
  from Suc.IH [OF d this] show ?case by simp
qed

lemma capture_loop_done:
  "num_frames \<le> i \<Longrightarrow> capture_loop s raspi_name num_frames i k ts =
     \<lparr>outcome = Exit EXIT_SUCCESS, cerr = [], threads = ts\<rparr>"
  by (subst capture_loop.simps) simp

text \<open>
  As long as the device delivers, the threads start and the counter stays below
  \<open>INT_MAX\<close>, each iteration adds its two threads.
\<close>

lemma capture_loop_iterate:
  "i + int m \<le> n \<Longrightarrow> i + int m \<le> INT_MAX
   \<Longrightarrow> \<forall>j. k \<le> j \<and> j < k + m \<longrightarrow> (\<exists>fs. wait_for_frames s j = Inr fs)
   \<Longrightarrow> \<forall>j < 2 * m. start_thread s (length ts + j) = None
   \<Longrightarrow> capture_loop s raspi_name n i k ts =
       capture_loop s raspi_name n (i + int m) (k + m)
         (ts @ concat (map (spawned s raspi_name) [k..<k + m]))"
proof (induction m arbitrary: i k ts)
  case 0
  show ?case by simp
next
  case (Suc m)
  then have lt: "i < n" and ne: "i \<noteq> INT_MAX" by linarith+
  from Suc.prems(3) obtain fs where fs: "wait_for_frames s k = Inr fs"
    by (metis le_refl less_add_same_cancel1 zero_less_Suc)
  have sp: "spawned s raspi_name k = [save_frame_depth_data s raspi_name (get_depth_frame fs),
      save_frame_color_data s raspi_name (get_color_frame fs)]"
    by (simp add: spawned_def fs)
  from Suc.prems(4) have st0: "start_thread s (length ts) = None"
    and st1: "start_thread s (Suc (length ts)) = None"
    using Suc.prems(4) [rule_format, of 0] Suc.prems(4) [rule_format, of 1] by simp_all
  have rest: "\<forall>j. Suc k \<le> j \<and> j < Suc k + m \<longrightarrow> (\<exists>fs. wait_for_frames s j = Inr fs)"
    using Suc.prems(3) by auto
  have starts: "\<forall>j < 2 * m. start_thread s (length (ts @ spawned s raspi_name k) + j) = None"
  proof (intro allI impI)
    fix j assume "j < 2 * m"
    then have "Suc (Suc j) < 2 * Suc m" by simp
    from Suc.prems(4) [rule_format, OF this] show
      "start_thread s (length (ts @ spawned s raspi_name k) + j) = None"
      by (simp add: sp)
  qed
  have up: "[k..<k + Suc m] = k # [Suc k..<Suc k + m]"
    by (simp add: upt_conv_Cons)
  have step: "capture_loop s raspi_name n (i + 1) (Suc k) (ts @ spawned s raspi_name k) =
      capture_loop s raspi_name n (i + 1 + int m) (Suc k + m)
        ((ts @ spawned s raspi_name k) @ concat (map (spawned s raspi_name) [Suc k..<Suc k + m]))"
    using Suc.prems(1,2) by (intro Suc.IH [OF _ _ rest starts]) simp_all
  have "capture_loop s raspi_name n i k ts =
      capture_loop s raspi_name n (i + 1) (Suc k) (ts @ spawned s raspi_name k)"
    using lt ne by (subst capture_loop.simps) (simp add: fs st0 st1 sp Let_def)
  also note step
  also have "(ts @ spawned s raspi_name k) @ concat (map (spawned s raspi_name) [Suc k..<Suc k + m])
      = ts @ concat (map (spawned s raspi_name) [k..<k + Suc m])"
    unfolding up by simp
  also have "i + 1 + int m = i + int (Suc m)" by simp
  also have "Suc k + m = k + Suc m" by simp
  finally show ?case .
qed

lemma capture_loop_ok:
  assumes "0 \<le> n" and "n \<le> INT_MAX"
    and "\<forall>j. k \<le> j \<and> j < k + nat n \<longrightarrow> (\<exists>fs. wait_for_frames s j = Inr fs)"
    and "\<forall>j < 2 * nat n. start_thread s j = None"
  shows "capture_loop s raspi_name n 0 k [] =
       \<lparr>outcome = Exit EXIT_SUCCESS, cerr = [],
        threads = concat (map (spawned s raspi_name) [k..<k + nat n])\<rparr>"
proof -
  have "capture_loop s raspi_name n 0 k [] =
      capture_loop s raspi_name n (0 + int (nat n)) (k + nat n)
        ([] @ concat (map (spawned s raspi_name) [k..<k + nat n]))"
    using assms by (intro capture_loop_iterate) simp_all
  also have "\<dots> = \<lparr>outcome = Exit EXIT_SUCCESS, cerr = [],
        threads = concat (map (spawned s raspi_name) [k..<k + nat n])\<rparr>"
    using assms(1) by (simp add: capture_loop_done)
  finally show ?thesis .
qed

text \<open>
  When the device keeps delivering, the threads keep starting and \<open>num_frames\<close> exceeds
  \<open>INT_MAX\<close>, the counter reaches \<open>INT_MAX\<close> and the loop ends in the overflow of \<open>++i\<close>.
\<close>

lemma capture_loop_overflow:
  assumes "INT_MAX < n"
    and "\<forall>j. k \<le> j \<and> j \<le> k + nat INT_MAX \<longrightarrow> (\<exists>fs. wait_for_frames s j = Inr fs)"
    and "\<forall>j < 2 * Suc (nat INT_MAX). start_thread s j = None"
  shows "outcome (capture_loop s raspi_name n 0 k []) = Undefined"
proof -
  let ?m = "nat INT_MAX"
  let ?ts = "concat (map (spawned s raspi_name) [k..<k + ?m])"
  have pos: "0 \<le> INT_MAX" by (simp add: INT_MAX_def)
  have len: "length ?ts = 2 * ?m"
    using assms(2) by (intro length_spawned [where ks = "[k..<k + ?m]", simplified]) auto
  have "capture_loop s raspi_name n 0 k [] =
      capture_loop s raspi_name n (0 + int ?m) (k + ?m) ([] @ ?ts)"
    using assms pos by (intro capture_loop_iterate) simp_all
  then have eq: "capture_loop s raspi_name n 0 k [] = capture_loop s raspi_name n INT_MAX (k + ?m) ?ts"
    using pos by simp
  from assms(2) obtain fs where fs: "wait_for_frames s (k + ?m) = Inr fs"
    by (metis le_add1 le_refl)
  have st0: "start_thread s (length ?ts) = None" and st1: "start_thread s (Suc (length ?ts)) = None"
    using assms(3) by (simp_all add: len)
  show ?thesis
    unfolding eq using assms(1)
    by (subst capture_loop.simps) (simp add: fs st0 st1 Let_def)
qed

lemma threads_handler: "threads (handler e) = []"
  by (cases e) simp_all

lemma outcome_handler: "outcome (handler e) = Exit EXIT_FAILURE"
  by (cases e) simp_all

text \<open>
  Whatever happens, the threads of a run are the threads of the captured framesets in
  their order, up to some point.
\<close>

lemma capture_loop_threads:
  "nat (n - i) = d \<Longrightarrow>
   \<exists>m rest. ts @ concat (map (spawned s raspi_name) [k..<k + m]) =
      threads (capture_loop s raspi_name n i k ts) @ rest"
proof (induction d arbitrary: i k ts)
  case 0
  then have "n \<le> i" by simp
  then have "ts @ concat (map (spawned s raspi_name) [k..<k + 0]) =
      threads (capture_loop s raspi_name n i k ts) @ []"
    by (simp add: capture_loop_done)
  then show ?case by blast
next
  case (Suc d)
  then have lt: "i < n" by linarith
  have stop: "\<exists>m rest. ts @ concat (map (spawned s raspi_name) [k..<k + m]) =
      threads (unwind ts e) @ rest" for e
  proof -
    have "ts @ concat (map (spawned s raspi_name) [k..<k + 0]) = threads (unwind ts e) @ []"
      by (simp add: unwind_def threads_handler)
    then show ?thesis by blast
  qed
  show ?case
  proof (cases "wait_for_frames s k")
    case (Inl e)
    have "capture_loop s raspi_name n i k ts = unwind ts e"
      using lt Inl by (subst capture_loop.simps) simp
    with stop show ?thesis by simp
  next
    case (Inr data)
    let ?d = "save_frame_depth_data s raspi_name (get_depth_frame data)"
    let ?c = "save_frame_color_data s raspi_name (get_color_frame data)"
    have sp: "spawned s raspi_name k = [?d, ?c]"
      by (simp add: spawned_def Inr)
    have one: "[k..<k + 1] = [k]" by simp
    show ?thesis
    proof (cases "start_thread s (length ts)")
      case (Some what)
      have "capture_loop s raspi_name n i k ts = unwind ts (Std_exception what)"
        using lt Inr Some by (subst capture_loop.simps) simp
      with stop show ?thesis by simp
    next
      case st0: None
      show ?thesis
      proof (cases "start_thread s (Suc (length ts))")
        case (Some what)
        have "threads (capture_loop s raspi_name n i k ts) = ts @ [?d]"
          using lt Inr st0 Some by (subst capture_loop.simps) (simp add: unwind_def Let_def)
        then have "ts @ concat (map (spawned s raspi_name) [k..<k + 1]) =
            threads (capture_loop s raspi_name n i k ts) @ [?c]"
          by (simp add: sp)
        then show ?thesis by blast
      next
        case st1: None
        show ?thesis
        proof (cases "i = INT_MAX")
          case True
          have "threads (capture_loop s raspi_name n i k ts) = ts @ [?d, ?c]"
            using True lt Inr st0 st1 by (subst capture_loop.simps) (simp add: Let_def)
          then have "ts @ concat (map (spawned s raspi_name) [k..<k + 1]) =
              threads (capture_loop s raspi_name n i k ts) @ []"
            by (simp add: sp)
          then show ?thesis by blast
        next
          case False
          have d: "nat (n - (i + 1)) = d" using Suc.prems by linarith
          from Suc.IH [OF d, of "ts @ [?d, ?c]" "Suc k"]
          obtain m rest where m: "(ts @ [?d, ?c]) @ concat (map (spawned s raspi_name) [Suc k..<Suc k + m]) =
              threads (capture_loop s raspi_name n (i + 1) (Suc k) (ts @ [?d, ?c])) @ rest"
            by blast
          have up: "[k..<k + Suc m] = k # [Suc k..<Suc k + m]"
            by (simp add: upt_conv_Cons)
          have "capture_loop s raspi_name n i k ts =
              capture_loop s raspi_name n (i + 1) (Suc k) (ts @ [?d, ?c])"
            using False lt Inr st0 st1 by (subst capture_loop.simps) (simp add: Let_def)
          with m have "ts @ concat (map (spawned s raspi_name) [k..<k + Suc m]) =
              threads (capture_loop s raspi_name n i k ts) @ rest"
            unfolding up by (simp add: sp)
          then show ?thesis by blast
        qed
      qed
    qed
  qed
qed

lemma capture_loop_keeps:
  "nat (n - i) = d \<Longrightarrow> \<exists>rest. threads (capture_loop s raspi_name n i k ts) = ts @ rest"
proof (induction d arbitrary: i k ts)
  case 0
  then have "n \<le> i" by simp
  then show ?case by (simp add: capture_loop_done)
next
  case (Suc d)
  then have lt: "i < n" by linarith
  have d: "nat (n - (i + 1)) = d" using Suc.prems by linarith
  have stop: "\<exists>rest. threads (unwind ts' e) = ts' @ rest" for e ts'
    by (simp add: unwind_def threads_handler)
  have stop1: "\<exists>rest. threads (unwind (ts @ [x]) e) = ts @ rest" for e x
    by (simp add: unwind_def)
  from Suc.IH [OF d] have IH: "\<exists>rest. threads (capture_loop s raspi_name n (i + 1) (Suc k)
      (ts @ [x, y])) = ts @ rest" for x y
    by (metis append.assoc)
  show ?case
    using lt stop stop1 IH
    by (subst capture_loop.simps) (simp add: Let_def split: sum.split option.split)
qed

lemma capture_loop_agree:
  "nat (n - i) = d \<Longrightarrow> \<forall>j\<ge>k. w j = wait_for_frames s j \<Longrightarrow>
   capture_loop (s\<lparr>wait_for_frames := w\<rparr>) raspi_name n i k ts = capture_loop s raspi_name n i k ts"
proof (induction d arbitrary: i k ts)
  case 0
  then have "n \<le> i" by simp
  then show ?case by (simp add: capture_loop_done)
next
  case (Suc d)
  then have lt: "i < n" by linarith
  have d: "nat (n - (i + 1)) = d" using Suc.prems(1) by linarith
  have wk: "w k = wait_for_frames s k" using Suc.prems(2) by simp
  have rest: "\<forall>j\<ge>Suc k. w j = wait_for_frames s j" using Suc.prems(2) by simp
  note IH = Suc.IH [OF d rest]
  show ?case
    by (subst capture_loop.simps, subst (2) capture_loop.simps)
       (simp add: wk IH save_wait_irrelevant Let_def split: sum.splits option.splits)
qed

lemma first_spawned:
  assumes "0 < n" and "wait_for_frames s k = Inr data"
  shows "take 2 (threads (capture_loop s raspi_name n 0 k [])) =
     (if start_thread s 0 \<noteq> None then []
      else if start_thread s 1 \<noteq> None
      then [save_frame_depth_data s raspi_name (get_depth_frame data)]
      else [save_frame_depth_data s raspi_name (get_depth_frame data),
            save_frame_color_data s raspi_name (get_color_frame data)])"
proof -
  let ?ts = "[save_frame_depth_data s raspi_name (get_depth_frame data),
      save_frame_color_data s raspi_name (get_color_frame data)]"
  from capture_loop_keeps [OF refl, of s raspi_name n 1 "Suc k" ?ts]
  obtain rest where "threads (capture_loop s raspi_name n 1 (Suc k) ?ts) = ?ts @ rest"
    by blast
  then show ?thesis
    using assms
    by (subst capture_loop.simps)
       (auto simp: Let_def INT_MAX_def unwind_def threads_handler split: option.split)
qed

subsection \<open>Runs of \<open>main\<close>\<close>

lemma main_started:
  assumes "pipeline_started s" and "arg argv 1 = Some a1" and "arg argv 2 = Some raspi_name"
    and "\<forall>j<30. \<exists>fs. wait_for_frames s j = Inr fs"
  shows "main s argv = capture_loop s raspi_name (strtol a1) 0 30 []"
proof -
  note w = warm_up_30 [OF assms(4)]
  from assms(1) obtain devices where d: "query_devices s = Inr devices" "0 < devices"
    by (auto simp: pipeline_started_def split: sum.splits)
  from assms(1) have c: "enable_stream s depth_request = None"
    "enable_stream s color_request = None"
    "pipe_start s [depth_request, color_request] = None"
    by (simp_all add: pipeline_started_def)
  show ?thesis
    using d assms(2,3) by (simp add: main_def c w Let_def)
qed

lemma main_completes:
  assumes "pipeline_started s" and "arg argv 1 = Some a1" and "arg argv 2 = Some raspi_name"
    and "0 \<le> strtol a1" and "strtol a1 \<le> INT_MAX"
    and "\<forall>k < 30 + nat (strtol a1). \<exists>fs. wait_for_frames s k = Inr fs"
    and "\<forall>j < 2 * nat (strtol a1). start_thread s j = None"
  shows "main s argv = \<lparr>outcome = Exit EXIT_SUCCESS, cerr = [],
           threads = concat (map (spawned s raspi_name) [30..<30 + nat (strtol a1)])\<rparr>"
proof -
  have "main s argv = capture_loop s raspi_name (strtol a1) 0 30 []"
    using assms(1-3,6) by (intro main_started) auto
  also have "\<dots> = \<lparr>outcome = Exit EXIT_SUCCESS, cerr = [],
           threads = concat (map (spawned s raspi_name) [30..<30 + nat (strtol a1)])\<rparr>"
    using assms(4-7) by (intro capture_loop_ok) auto
  finally show ?thesis .
qed

lemma main_agree:
  assumes "\<forall>j<30. \<exists>fs. wait_for_frames s j = Inr fs" and "\<forall>j<30. \<exists>fs. w j = Inr fs"
    and "\<forall>j\<ge>30. w j = wait_for_frames s j"
  shows "main (s\<lparr>wait_for_frames := w\<rparr>) argv = main s argv"
proof -
  have w1: "warm_up s 0 0 = Inr 30" by (rule warm_up_30 [OF assms(1)])
  have w2: "warm_up (s\<lparr>wait_for_frames := w\<rparr>) 0 0 = Inr 30"
    using assms(2) by (intro warm_up_30) simp
  have cl: "capture_loop (s\<lparr>wait_for_frames := w\<rparr>) raspi_name n 0 30 [] = capture_loop s raspi_name n 0 30 []"
    for raspi_name n
    using assms(3) by (intro capture_loop_agree [OF refl])
  show ?thesis
    by (simp add: main_def w1 w2 cl Let_def split: sum.splits option.splits)
qed

lemma main_reaches_capture:
  "threads (main s argv) = []
   \<or> (\<exists>a1 raspi_name k. warm_up s 0 0 = Inr k
         \<and> main s argv = capture_loop s raspi_name (strtol a1) 0 k [])"
proof (cases "\<exists>a1 raspi_name k devices. query_devices s = Inr devices \<and> devices \<noteq> 0
    \<and> enable_stream s depth_request = None \<and> enable_stream s color_request = None
    \<and> pipe_start s [depth_request, color_request] = None
    \<and> arg argv 1 = Some a1 \<and> arg argv 2 = Some raspi_name \<and> warm_up s 0 0 = Inr k")
  case True
  then obtain a1 raspi_name k devices where h: "query_devices s = Inr devices" "devices \<noteq> 0"
    "enable_stream s depth_request = None" "enable_stream s color_request = None"
    "pipe_start s [depth_request, color_request] = None"
    "arg argv 1 = Some a1" "arg argv 2 = Some raspi_name" "warm_up s 0 0 = Inr k"
    by blast
  have "main s argv = capture_loop s raspi_name (strtol a1) 0 k []"
    using h(6,7) by (simp add: main_def h(1-5,8) Let_def)
  with h(8) show ?thesis by blast
next
  case False
  then have "threads (main s argv) = []"
    by (auto simp: main_def threads_handler undefined_run_def Let_def
        split: sum.split option.split)
  then show ?thesis by simp
qed

lemma main_threads:
  "\<exists>raspi_name m rest. concat (map (spawned s raspi_name) [30..<30 + m]) =
     threads (main s argv) @ rest"
proof -
  from main_reaches_capture [of s argv]
  consider (none) "threads (main s argv) = []"
    | (run) a1 raspi_name k where "warm_up s 0 0 = Inr k"
      and "main s argv = capture_loop s raspi_name (strtol a1) 0 k []"
    by blast
  then show ?thesis
  proof cases
    case run
    from warm_up_result [OF _ run(1)] have k: "k = 30" by simp
    from capture_loop_threads [OF refl, of "[]" s raspi_name 30 "strtol a1" 0]
    show ?thesis unfolding run(2) k by auto
  next
    case none
    then have "concat (map (spawned s []) [30..<30 + 0]) = threads (main s argv) @ []" by simp
    then show ?thesis by blast
  qed
qed

subsection \<open>Facts about the example device\<close>

lemma example_started: "pipeline_started example_sdk"
  by (simp add: pipeline_started_def example_sdk_def)

lemma example_waits: "\<exists>fs. wait_for_frames example_sdk k = Inr fs"
  by (simp add: example_sdk_def)

lemma example_starts: "start_thread example_sdk j = None"
  by (simp add: example_sdk_def)

lemma example_chain: "depth_chain example_sdk frame = frame"
  by (simp add: depth_chain_def example_sdk_def)

lemma strtol_0: "strtol ''0'' = 0"
  by code_simp

lemma strtol_3: "strtol ''3'' = 3"
  by code_simp

lemma strtol_minus_5: "strtol ''-5'' = - 5"
  by code_simp

lemma strtol_abc: "strtol ''abc'' = 0"
  by code_simp

lemma strtol_2_frames: "strtol ''2 frames'' = 2"
  by code_simp

lemma strtol_2: "strtol ''2'' = 2"
  by code_simp

lemma strtol_1: "strtol ''1'' = 1"
  by code_simp

lemma string_of_nat_30: "string_of_nat 30 = ''30''"
  by code_simp

lemma string_of_nat_130: "string_of_nat 130 = ''130''"
  by code_simp

subsection \<open>How many artifacts a run writes\<close>

lemma distinct_named:
  assumes "distinct ks" and "\<forall>j \<in> set ks. \<forall>k \<in> set ks. j \<noteq> k \<longrightarrow> num j \<noteq> num k"
  shows "distinct (map (\<lambda>k. pre @ string_of_nat (num k) @ suf) (filter P ks))"
proof -
  have "inj_on (\<lambda>k. pre @ string_of_nat (num k) @ suf) (set (filter P ks))"
    using assms(2) by (auto simp: inj_on_def dest: string_of_nat_inj)
  with assms(1) show ?thesis
    by (simp add: distinct_map)
qed

lemma files_all_written:
  assumes "set ps \<subseteq> set (written_paths (threads r))"
    and "\<forall>p \<in> set (written_paths (threads r)). can_open s p"
    and "distinct ps"
  shows "remdups (filter (can_open s) ps) = ps"
proof -
  have "filter (can_open s) ps = ps"
    using assms(1,2) by (auto intro: filter_True)
  with assms(3) show ?thesis
    by (simp add: distinct_remdups_id)
qed

text \<open>
  C1, as far as the program has it. Take a run in which the pipeline started, both
  arguments are present, the parsed frame count \<open>n\<close> is not negative, the first
  \<open>30 + n\<close> calls of \<open>wait_for_frames\<close> deliver framesets, each of the \<open>2 * n\<close> threads
  can be started while none has been joined, every file the threads write can be
  opened, and the captured frames of a stream carry different frame numbers (for
  depth: after the filter chain); undefined behaviour (the overflow of the \<open>int\<close> loop
  counter or of a buffer size) is left out. Then \<open>main\<close> returns 0, the number of depth
  files written is \<open>n\<close> minus the number of captured framesets whose filtered depth frame
  is not a video frame, and the number of colour files written is \<open>n\<close> minus the number
  of captured framesets whose colour frame is not a video frame. For \<open>n = 0\<close> no frameset
  is captured, so both numbers are 0 and \<open>main\<close> returns 0.
\<close>

theorem artifact_counts:
  assumes "pipeline_started s" and "arg argv 1 = Some a1" and "arg argv 2 = Some raspi_name"
    and "0 \<le> strtol a1"
    and "\<forall>k < 30 + nat (strtol a1). wait_for_frames s k = Inr (fs k)"
    and "\<forall>j < 2 * nat (strtol a1). start_thread s j = None"
    and "\<forall>p \<in> set (written_paths (threads (main s argv))). can_open s p"
    and "\<forall>j k. 30 \<le> j \<and> j < k \<and> k < 30 + nat (strtol a1) \<longrightarrow>
           get_frame_number (depth_chain s (get_depth_frame (fs j)))
             \<noteq> get_frame_number (depth_chain s (get_depth_frame (fs k)))
           \<and> get_frame_number (get_color_frame (fs j))
             \<noteq> get_frame_number (get_color_frame (fs k))"
    and "well_defined (main s argv)"
  shows "outcome (main s argv) = Exit 0
    \<and> int (depth_artifacts s (main s argv)) =
        strtol a1 - int (length (filter (\<lambda>k. \<not> is_video_frame (depth_chain s (get_depth_frame (fs k))))
                                  [30..<30 + nat (strtol a1)]))
    \<and> int (color_artifacts s (main s argv)) =
        strtol a1 - int (length (filter (\<lambda>k. \<not> is_video_frame (get_color_frame (fs k)))
                                  [30..<30 + nat (strtol a1)]))"
proof -
  let ?n = "nat (strtol a1)"
  let ?ks = "[30..<30 + ?n]"
  have ok: "\<forall>k < 30 + ?n. \<exists>fs. wait_for_frames s k = Inr fs"
    using assms(5) by blast
  have le: "strtol a1 \<le> INT_MAX"
  proof (rule ccontr)
    assume "\<not> strtol a1 \<le> INT_MAX"
    then have big: "INT_MAX < strtol a1" by simp
    then have m: "nat INT_MAX < ?n" by (simp add: INT_MAX_def)
    have "main s argv = capture_loop s raspi_name (strtol a1) 0 30 []"
      using assms(1-3) ok by (intro main_started) auto
    moreover have "outcome (capture_loop s raspi_name (strtol a1) 0 30 []) = Undefined"
      using big ok assms(6) m by (intro capture_loop_overflow) auto
    ultimately show False
      using assms(9) by (simp add: well_defined_def)
  qed
  note run = main_completes [OF assms(1-4) le ok assms(6)]
  have fs: "\<forall>k \<in> set ?ks. wait_for_frames s k = Inr (fs k)"
    using assms(5) by simp
  have n: "int ?n = strtol a1" using assms(4) by simp
  let ?dv = "\<lambda>k. is_video_frame (depth_chain s (get_depth_frame (fs k)))"
  let ?cv = "\<lambda>k. is_video_frame (get_color_frame (fs k))"
  let ?dp = "map (\<lambda>k. ''depth/'' @ raspi_name @ ''_depth_''
              @ string_of_nat (get_frame_number (depth_chain s (get_depth_frame (fs k)))) @ ''.raw'')
     (filter ?dv ?ks)"
  let ?cp = "map (\<lambda>k. ''colour/'' @ raspi_name @ ''_colour_''
              @ string_of_nat (get_frame_number (get_color_frame (fs k))) @ ''.png'')
     (filter ?cv ?ks)"
  have dnum: "\<forall>j \<in> set ?ks. \<forall>k \<in> set ?ks. j \<noteq> k \<longrightarrow>
      get_frame_number (depth_chain s (get_depth_frame (fs j)))
        \<noteq> get_frame_number (depth_chain s (get_depth_frame (fs k)))"
  proof (intro ballI impI)
    fix j k assume "j \<in> set ?ks" "k \<in> set ?ks" "j \<noteq> k"
    then consider "30 \<le> j \<and> j < k \<and> k < 30 + ?n" | "30 \<le> k \<and> k < j \<and> j < 30 + ?n"
      by (cases "j < k") auto
    then show "get_frame_number (depth_chain s (get_depth_frame (fs j)))
        \<noteq> get_frame_number (depth_chain s (get_depth_frame (fs k)))"
      using assms(8) by cases metis+
  qed
  have cnum: "\<forall>j \<in> set ?ks. \<forall>k \<in> set ?ks. j \<noteq> k \<longrightarrow>
      get_frame_number (get_color_frame (fs j)) \<noteq> get_frame_number (get_color_frame (fs k))"
  proof (intro ballI impI)
    fix j k assume "j \<in> set ?ks" "k \<in> set ?ks" "j \<noteq> k"
    then consider "30 \<le> j \<and> j < k \<and> k < 30 + ?n" | "30 \<le> k \<and> k < j \<and> j < 30 + ?n"
      by (cases "j < k") auto
    then show "get_frame_number (get_color_frame (fs j)) \<noteq> get_frame_number (get_color_frame (fs k))"
      using assms(8) by cases metis+
  qed
  have dpaths: "List.map_filter depth_path (concat (threads (main s argv))) = ?dp"
    unfolding run using depth_paths_spawned [OF fs, of raspi_name] by simp
  have cpaths: "List.map_filter color_path (concat (threads (main s argv))) = ?cp"
    unfolding run using color_paths_spawned [OF fs, of raspi_name] by simp
  have "distinct ?dp"
    using distinct_named [of ?ks "\<lambda>k. get_frame_number (depth_chain s (get_depth_frame (fs k)))"
        "''depth/'' @ raspi_name @ ''_depth_''" "''.raw''" ?dv] dnum
    by simp
  moreover have "set ?dp \<subseteq> set (written_paths (threads (main s argv)))"
    using paths_subset_written(1) [of "threads (main s argv)"] by (simp only: dpaths)
  ultimately have "remdups (filter (can_open s) ?dp) = ?dp"
    using assms(7) by (intro files_all_written)
  then have dn: "depth_artifacts s (main s argv) = length (filter ?dv ?ks)"
    by (simp add: depth_artifacts_def files_written_def dpaths)
  have "distinct ?cp"
    using distinct_named [of ?ks "\<lambda>k. get_frame_number (get_color_frame (fs k))"
        "''colour/'' @ raspi_name @ ''_colour_''" "''.png''" ?cv] cnum
    by simp
  moreover have "set ?cp \<subseteq> set (written_paths (threads (main s argv)))"
    using paths_subset_written(2) [of "threads (main s argv)"] by (simp only: cpaths)
  ultimately have "remdups (filter (can_open s) ?cp) = ?cp"
    using assms(7) by (intro files_all_written)
  then have cn: "color_artifacts s (main s argv) = length (filter ?cv ?ks)"
    by (simp add: color_artifacts_def files_written_def cpaths)
  have "length (filter ?dv ?ks) + length (filter (\<lambda>k. \<not> ?dv k) ?ks) = ?n"
    using sum_length_filter_compl [of ?dv ?ks] by simp
  with dn n have d: "int (depth_artifacts s (main s argv)) =
        strtol a1 - int (length (filter (\<lambda>k. \<not> ?dv k) ?ks))"
    by linarith
  have "length (filter ?cv ?ks) + length (filter (\<lambda>k. \<not> ?cv k) ?ks) = ?n"
    using sum_length_filter_compl [of ?cv ?ks] by simp
  with cn n have c: "int (color_artifacts s (main s argv)) =
        strtol a1 - int (length (filter (\<lambda>k. \<not> ?cv k) ?ks))"
    by linarith
  have "outcome (main s argv) = Exit 0"
    unfolding run by (simp add: EXIT_SUCCESS_def)
  with d c show ?thesis by blast
qed

theorem artifact_counts_witness:
  "pipeline_started example_sdk
   \<and> arg [''capture'', ''3'', ''pi''] 1 = Some ''3''
   \<and> arg [''capture'', ''3'', ''pi''] 2 = Some ''pi''
   \<and> 0 \<le> strtol ''3''
   \<and> well_defined (main example_sdk [''capture'', ''3'', ''pi''])
   \<and> outcome (main example_sdk [''capture'', ''3'', ''pi'']) = Exit 0
   \<and> depth_artifacts example_sdk (main example_sdk [''capture'', ''3'', ''pi'']) = 2
   \<and> color_artifacts example_sdk (main example_sdk [''capture'', ''3'', ''pi'']) = 3
   \<and> arg [''capture'', ''0'', ''pi''] 1 = Some ''0''
   \<and> strtol ''0'' = 0
   \<and> well_defined (main example_sdk [''capture'', ''0'', ''pi''])
   \<and> outcome (main example_sdk [''capture'', ''0'', ''pi'']) = Exit 0
   \<and> depth_artifacts example_sdk (main example_sdk [''capture'', ''0'', ''pi'']) = 0
   \<and> color_artifacts example_sdk (main example_sdk [''capture'', ''0'', ''pi'']) = 0"
proof -
  let ?fs = "\<lambda>k. \<lparr>get_depth_frame = example_frame RS2_STREAM_DEPTH k (k \<noteq> 31),
              get_color_frame = example_frame RS2_STREAM_COLOR (100 + k) True\<rparr>"
  have h1: "pipeline_started example_sdk" by (rule example_started)
  have h2: "arg [''capture'', ''3'', ''pi''] 1 = Some ''3''" by (simp add: arg_def)
  have h3: "arg [''capture'', ''3'', ''pi''] 2 = Some ''pi''" by (simp add: arg_def)
  have h4: "0 \<le> strtol ''3''" by (simp add: strtol_3)
  have h5: "\<forall>k < 30 + nat (strtol ''3''). wait_for_frames example_sdk k = Inr (?fs k)"
    by (simp add: example_sdk_def)
  have h6: "\<forall>j < 2 * nat (strtol ''3''). start_thread example_sdk j = None"
    by (simp add: example_starts)
  have h7: "\<forall>p \<in> set (written_paths (threads (main example_sdk argv))). can_open example_sdk p"
    for argv
    by (simp add: example_sdk_def)
  have h8: "\<forall>j k. 30 \<le> j \<and> j < k \<and> k < 30 + nat (strtol a) \<longrightarrow>
           get_frame_number (depth_chain example_sdk (get_depth_frame (?fs j)))
             \<noteq> get_frame_number (depth_chain example_sdk (get_depth_frame (?fs k)))
           \<and> get_frame_number (get_color_frame (?fs j))
             \<noteq> get_frame_number (get_color_frame (?fs k))" for a
    by (simp add: example_chain example_frame_def)
  have h9: "well_defined (main example_sdk [''capture'', ''3'', ''pi''])"
    by code_simp
  have up: "[30..<33] = [30, 31, 32::nat]"
    by (simp add: upt_conv_Cons)
  from artifact_counts [OF h1 h2 h3 h4 h5 h6 h7 h8 h9]
  have three: "outcome (main example_sdk [''capture'', ''3'', ''pi'']) = Exit 0
     \<and> depth_artifacts example_sdk (main example_sdk [''capture'', ''3'', ''pi'']) = 2
     \<and> color_artifacts example_sdk (main example_sdk [''capture'', ''3'', ''pi'']) = 3"
    by (simp add: strtol_3 up example_chain example_frame_def)
  have z2: "arg [''capture'', ''0'', ''pi''] 1 = Some ''0''" by (simp add: arg_def)
  have z3: "arg [''capture'', ''0'', ''pi''] 2 = Some ''pi''" by (simp add: arg_def)
  have z4: "0 \<le> strtol ''0''" by (simp add: strtol_0)
  have z5: "\<forall>k < 30 + nat (strtol ''0''). wait_for_frames example_sdk k = Inr (?fs k)"
    by (simp add: example_sdk_def)
  have z6: "\<forall>j < 2 * nat (strtol ''0''). start_thread example_sdk j = None"
    by (simp add: example_starts)
  have z9: "well_defined (main example_sdk [''capture'', ''0'', ''pi''])"
    by code_simp
  from artifact_counts [OF h1 z2 z3 z4 z5 z6 h7 h8 z9]
  have zero: "outcome (main example_sdk [''capture'', ''0'', ''pi'']) = Exit 0
     \<and> depth_artifacts example_sdk (main example_sdk [''capture'', ''0'', ''pi'']) = 0
     \<and> color_artifacts example_sdk (main example_sdk [''capture'', ''0'', ''pi'']) = 0"
    by (simp add: strtol_0)
  from h1 h2 h3 h4 h9 three z2 z9 zero strtol_0 show ?thesis by blast
qed

text \<open>
  C1 does not hold as it stands, on three counts. On a platform that lets the process
  hold two threads, a run for 3 framesets ends when the third thread cannot be
  started: the exception meets the two unjoined threads of the first frameset, the
  process is terminated, and one depth file and one colour file are written where 2
  and 3 are due. With a device whose depth frames all carry the frame number 7, a
  run for 2 framesets returns 0 and has written one depth file, twice, where 2 are
  due. Without the directory \<open>depth/\<close>, a run for 1 frameset returns 0 and has written
  no depth file.
\<close>

theorem artifact_counts_fail:
  "outcome (main cramped_sdk [''capture'', ''3'', ''pi'']) = Terminate
   \<and> depth_artifacts cramped_sdk (main cramped_sdk [''capture'', ''3'', ''pi'']) = 1
   \<and> color_artifacts cramped_sdk (main cramped_sdk [''capture'', ''3'', ''pi'']) = 1
   \<and> outcome (main repeating_sdk [''capture'', ''2'', ''pi'']) = Exit 0
   \<and> depth_artifacts repeating_sdk (main repeating_sdk [''capture'', ''2'', ''pi'']) = 1
   \<and> outcome (main no_depth_dir_sdk [''capture'', ''1'', ''pi'']) = Exit 0
   \<and> depth_artifacts no_depth_dir_sdk (main no_depth_dir_sdk [''capture'', ''1'', ''pi'']) = 0"
  by code_simp

subsection \<open>The warm-up\<close>

text \<open>
  C3. When the first 30 calls of \<open>wait_for_frames\<close> deliver framesets, the run does not
  depend on what these 30 framesets are: with any other 30 framesets in their place,
  \<open>main\<close> ends the same way, writes the same to \<open>std::cerr\<close> and starts the same threads
  with the same events. And exactly 30 are dropped: when the frame count is positive,
  the first two threads are the ones saving the depth and the colour frame of the
  frameset delivered by call number 30 (the 31st); where a thread cannot be started,
  the run has the threads started before it and no other.
\<close>

theorem warm_up_discarded:
  assumes "\<forall>j<30. \<exists>fs. wait_for_frames s j = Inr fs"
    and "\<forall>j<30. \<exists>fs. w j = Inr fs"
    and "\<forall>j\<ge>30. w j = wait_for_frames s j"
  shows "main (s\<lparr>wait_for_frames := w\<rparr>) argv = main s argv
       \<and> (pipeline_started s \<and> arg argv 1 = Some a1 \<and> arg argv 2 = Some raspi_name
            \<and> 0 < strtol a1 \<and> wait_for_frames s 30 = Inr data
            \<longrightarrow> take 2 (threads (main s argv)) =
                  (if start_thread s 0 \<noteq> None then []
                   else if start_thread s 1 \<noteq> None
                   then [save_frame_depth_data s raspi_name (get_depth_frame data)]
                   else [save_frame_depth_data s raspi_name (get_depth_frame data),
                         save_frame_color_data s raspi_name (get_color_frame data)]))"
proof (intro conjI impI)
  show "main (s\<lparr>wait_for_frames := w\<rparr>) argv = main s argv"
    using assms by (rule main_agree)
next
  assume a: "pipeline_started s \<and> arg argv 1 = Some a1 \<and> arg argv 2 = Some raspi_name
            \<and> 0 < strtol a1 \<and> wait_for_frames s 30 = Inr data"
  then have "main s argv = capture_loop s raspi_name (strtol a1) 0 30 []"
    using assms(1) by (intro main_started) auto
  with a show "take 2 (threads (main s argv)) =
                  (if start_thread s 0 \<noteq> None then []
                   else if start_thread s 1 \<noteq> None
                   then [save_frame_depth_data s raspi_name (get_depth_frame data)]
                   else [save_frame_depth_data s raspi_name (get_depth_frame data),
                         save_frame_color_data s raspi_name (get_color_frame data)])"
    by (simp only: first_spawned)
qed

theorem warm_up_discarded_witness:
  "main (example_sdk\<lparr>wait_for_frames :=
               (\<lambda>k. if k < 30 then wait_for_frames example_sdk (k + 500)
                    else wait_for_frames example_sdk k)\<rparr>) [''capture'', ''3'', ''pi'']
       = main example_sdk [''capture'', ''3'', ''pi'']
   \<and> pipeline_started example_sdk
   \<and> arg [''capture'', ''3'', ''pi''] 1 = Some ''3''
   \<and> arg [''capture'', ''3'', ''pi''] 2 = Some ''pi''
   \<and> 0 < strtol ''3''
   \<and> wait_for_frames example_sdk 30 =
        Inr \<lparr>get_depth_frame = example_frame RS2_STREAM_DEPTH 30 True,
             get_color_frame = example_frame RS2_STREAM_COLOR 130 True\<rparr>
   \<and> start_thread example_sdk 0 = None \<and> start_thread example_sdk 1 = None
   \<and> take 2 (threads (main example_sdk [''capture'', ''3'', ''pi''])) =
        [save_frame_depth_data example_sdk ''pi'' (example_frame RS2_STREAM_DEPTH 30 True),
         save_frame_color_data example_sdk ''pi'' (example_frame RS2_STREAM_COLOR 130 True)]"
proof -
  let ?w = "\<lambda>k. if k < 30 then wait_for_frames example_sdk (k + 500)
                 else wait_for_frames example_sdk k"
  let ?data = "\<lparr>get_depth_frame = example_frame RS2_STREAM_DEPTH 30 True,
             get_color_frame = example_frame RS2_STREAM_COLOR 130 True\<rparr>"
  have h1: "\<forall>j<30. \<exists>fs. wait_for_frames example_sdk j = Inr fs"
    by (simp add: example_sdk_def)
  have h2: "\<forall>j<30. \<exists>fs. ?w j = Inr fs"
    by (simp add: example_sdk_def)
  have h3: "\<forall>j\<ge>30. ?w j = wait_for_frames example_sdk j"
    by simp
  have h4: "pipeline_started example_sdk" by (rule example_started)
  have h5: "arg [''capture'', ''3'', ''pi''] 1 = Some ''3''" by (simp add: arg_def)
  have h6: "arg [''capture'', ''3'', ''pi''] 2 = Some ''pi''" by (simp add: arg_def)
  have h7: "0 < strtol ''3''" by (simp add: strtol_3)
  have h8: "wait_for_frames example_sdk 30 = Inr ?data"
    by (simp add: example_sdk_def)
  have h9: "start_thread example_sdk 0 = None" "start_thread example_sdk 1 = None"
    by (simp_all add: example_starts)
  from warm_up_discarded [OF h1 h2 h3, of "[''capture'', ''3'', ''pi'']" "''3''" "''pi''" ?data]
    h4 h5 h6 h7 h8
  have "main (example_sdk\<lparr>wait_for_frames := ?w\<rparr>) [''capture'', ''3'', ''pi'']
       = main example_sdk [''capture'', ''3'', ''pi'']
     \<and> take 2 (threads (main example_sdk [''capture'', ''3'', ''pi''])) =
        (if start_thread example_sdk 0 \<noteq> None then []
         else if start_thread example_sdk 1 \<noteq> None
         then [save_frame_depth_data example_sdk ''pi'' (get_depth_frame ?data)]
         else [save_frame_depth_data example_sdk ''pi'' (get_depth_frame ?data),
               save_frame_color_data example_sdk ''pi'' (get_color_frame ?data)])"
    by blast
  with h9
  have "main (example_sdk\<lparr>wait_for_frames := ?w\<rparr>) [''capture'', ''3'', ''pi'']
       = main example_sdk [''capture'', ''3'', ''pi'']
     \<and> take 2 (threads (main example_sdk [''capture'', ''3'', ''pi''])) =
        [save_frame_depth_data example_sdk ''pi'' (get_depth_frame ?data),
         save_frame_color_data example_sdk ''pi'' (get_color_frame ?data)]"
    by simp
  with h4 h5 h6 h7 h8 h9 show ?thesis
    by (simp only: frameset.simps)
qed

subsection \<open>The frame count\<close>

text \<open>
  C9. When the pipeline started, both arguments are present, the warm-up succeeded and
  the parsed frame count is zero or negative, \<open>main\<close> returns 0 having started no thread,
  hence written no file; and it has made no call of \<open>wait_for_frames\<close> beyond the 30 of
  the warm-up (nothing is assumed about them).
\<close>

theorem no_capture_for_nonpositive_count:
  assumes "pipeline_started s" and "arg argv 1 = Some a1" and "arg argv 2 = Some raspi_name"
    and "strtol a1 \<le> 0" and "\<forall>k<30. \<exists>fs. wait_for_frames s k = Inr fs"
  shows "main s argv = \<lparr>outcome = Exit 0, cerr = [], threads = []\<rparr>"
proof -
  have "main s argv = capture_loop s raspi_name (strtol a1) 0 30 []"
    using assms(1-3,5) by (rule main_started)
  also have "\<dots> = \<lparr>outcome = Exit EXIT_SUCCESS, cerr = [], threads = []\<rparr>"
    using assms(4) by (rule capture_loop_done)
  finally show ?thesis by (simp add: EXIT_SUCCESS_def)
qed

theorem no_capture_for_nonpositive_count_witness:
  "pipeline_started example_sdk
   \<and> arg [''capture'', ''-5'', ''pi''] 1 = Some ''-5''
   \<and> arg [''capture'', ''-5'', ''pi''] 2 = Some ''pi''
   \<and> strtol ''-5'' \<le> 0
   \<and> main example_sdk [''capture'', ''-5'', ''pi''] = \<lparr>outcome = Exit 0, cerr = [], threads = []\<rparr>"
proof -
  have h1: "pipeline_started example_sdk" by (rule example_started)
  have h2: "arg [''capture'', ''-5'', ''pi''] 1 = Some ''-5''" by (simp add: arg_def)
  have h3: "arg [''capture'', ''-5'', ''pi''] 2 = Some ''pi''" by (simp add: arg_def)
  have h4: "strtol ''-5'' \<le> 0" by (simp add: strtol_minus_5)
  have h5: "\<forall>k<30. \<exists>fs. wait_for_frames example_sdk k = Inr fs" by (simp add: example_waits)
  from no_capture_for_nonpositive_count [OF h1 h2 h3 h4 h5] h1 h2 h3 h4
  show ?thesis by blast
qed

text \<open>
  C8 does not hold: a frame count that is not a number is not an error. \<open>strtol\<close> reads
  \<open>abc\<close> as 0 and the run returns 0 without a word on \<open>std::cerr\<close>.
\<close>

theorem malformed_frame_count_accepted:
  "strtol ''abc'' = 0
   \<and> main example_sdk [''capture'', ''abc'', ''pi''] = \<lparr>outcome = Exit 0, cerr = [], threads = []\<rparr>"
proof -
  have "main example_sdk [''capture'', ''abc'', ''pi''] = capture_loop example_sdk ''pi'' (strtol ''abc'') 0 30 []"
    using example_started example_waits by (intro main_started) (simp_all add: arg_def)
  also have "\<dots> = \<lparr>outcome = Exit EXIT_SUCCESS, cerr = [], threads = []\<rparr>"
    by (intro capture_loop_done) (simp add: strtol_abc)
  finally show ?thesis by (simp add: EXIT_SUCCESS_def strtol_abc)
qed

text \<open>
  C8 as the program has it. The first argument goes through \<open>strtol\<close> and the number
  that comes back is the frame count, unchecked: a run depends on the text of the
  argument through that number only (two command lines whose first arguments read as
  the same number, and that agree on the second, give the same run), and once the
  pipeline has started that number is what bounds the capture loop.
\<close>

theorem frame_count_not_validated:
  "(arg argv 1 = Some a1 \<and> arg argv' 1 = Some a1' \<and> strtol a1 = strtol a1'
      \<and> arg argv 2 = arg argv' 2 \<longrightarrow> main s argv = main s argv')
   \<and> (pipeline_started s \<and> arg argv 1 = Some a1 \<and> arg argv 2 = Some raspi_name \<longrightarrow>
        main s argv =
          (case warm_up s 0 0 of
             Inl e \<Rightarrow> handler e
           | Inr k \<Rightarrow> capture_loop s raspi_name (strtol a1) 0 k []))"
proof (intro conjI impI)
  assume "arg argv 1 = Some a1 \<and> arg argv' 1 = Some a1' \<and> strtol a1 = strtol a1'
      \<and> arg argv 2 = arg argv' 2"
  then show "main s argv = main s argv'"
    by (auto simp: main_def Let_def split: sum.splits option.splits)
next
  assume a: "pipeline_started s \<and> arg argv 1 = Some a1 \<and> arg argv 2 = Some raspi_name"
  then obtain devices where d: "query_devices s = Inr devices" "0 < devices"
    by (auto simp: pipeline_started_def split: sum.splits)
  from a have c: "enable_stream s depth_request = None"
    "enable_stream s color_request = None"
    "pipe_start s [depth_request, color_request] = None"
    by (simp_all add: pipeline_started_def)
  show "main s argv =
          (case warm_up s 0 0 of
             Inl e \<Rightarrow> handler e
           | Inr k \<Rightarrow> capture_loop s raspi_name (strtol a1) 0 k [])"
    using d a by (simp add: main_def c Let_def)
qed

theorem frame_count_not_validated_witness:
  "arg [''capture'', ''2 frames'', ''pi''] 1 = Some ''2 frames''
   \<and> arg [''capture'', ''2'', ''pi''] 1 = Some ''2''
   \<and> strtol ''2 frames'' = strtol ''2''
   \<and> arg [''capture'', ''2 frames'', ''pi''] 2 = arg [''capture'', ''2'', ''pi''] 2
   \<and> main example_sdk [''capture'', ''2 frames'', ''pi''] = main example_sdk [''capture'', ''2'', ''pi'']
   \<and> pipeline_started example_sdk
   \<and> arg [''capture'', ''2 frames'', ''pi''] 2 = Some ''pi''
   \<and> main example_sdk [''capture'', ''2 frames'', ''pi''] = capture_loop example_sdk ''pi'' 2 0 30 []
   \<and> outcome (capture_loop example_sdk ''pi'' 2 0 30 []) = Exit 0
   \<and> length (threads (capture_loop example_sdk ''pi'' 2 0 30 [])) = 4"
proof -
  let ?argv = "[''capture'', ''2 frames'', ''pi'']"
  let ?argv' = "[''capture'', ''2'', ''pi'']"
  have h1: "arg ?argv 1 = Some ''2 frames''" by (simp add: arg_def)
  have h2: "arg ?argv' 1 = Some ''2''" by (simp add: arg_def)
  have h3: "strtol ''2 frames'' = strtol ''2''" by (simp add: strtol_2_frames strtol_2)
  have h4: "arg ?argv 2 = arg ?argv' 2" by (simp add: arg_def)
  have h5: "pipeline_started example_sdk" by (rule example_started)
  have h6: "arg ?argv 2 = Some ''pi''" by (simp add: arg_def)
  have w: "warm_up example_sdk 0 0 = Inr 30"
    by (intro warm_up_30) (simp add: example_waits)
  from frame_count_not_validated [of ?argv "''2 frames''" ?argv' "''2''" example_sdk "''pi''"]
    h1 h2 h3 h4 h5 h6
  have same: "main example_sdk ?argv = main example_sdk ?argv'"
    and "main example_sdk ?argv =
          (case warm_up example_sdk 0 0 of
             Inl e \<Rightarrow> handler e
           | Inr k \<Rightarrow> capture_loop example_sdk ''pi'' (strtol ''2 frames'') 0 k [])"
    by blast+
  then have loop: "main example_sdk ?argv = capture_loop example_sdk ''pi'' 2 0 30 []"
    by (simp add: w strtol_2_frames)
  have run: "outcome (capture_loop example_sdk ''pi'' 2 0 30 []) = Exit 0
      \<and> length (threads (capture_loop example_sdk ''pi'' 2 0 30 [])) = 4"
    by code_simp
  from h1 h2 h3 h4 h5 h6 same loop run show ?thesis by blast
qed

subsection \<open>The command line\<close>

text \<open>
  C10 does not hold for a single argument where the library is libstdc++: the string
  made from the null \<open>argv[2]\<close> raises a \<open>std::logic_error\<close>, which the handler for
  \<open>std::exception\<close> turns into the library's message on \<open>std::cerr\<close> and a return of 1.
\<close>

theorem one_argument_exits_1:
  "pipeline_started example_sdk \<and> length [''capture'', ''5''] < 3
   \<and> main example_sdk [''capture'', ''5''] =
       \<lparr>outcome = Exit 1,
        cerr = ''basic_string: construction from null is not valid'' @ [CHR 0x0A],
        threads = []\<rparr>"
  using example_started by (simp, code_simp)

text \<open>
  C10 as the program has it. The arguments are read only once the pipeline has
  started: a run in which it did not start is the same for every command line. And
  they are read without a check of \<open>argc\<close>. Once the pipeline has started: with no
  argument \<open>strtol\<close> reads through the null \<open>argv[1]\<close>, which is undefined; with one
  argument a \<open>std::string\<close> is made from the null \<open>argv[2]\<close>, which is undefined too, and
  where the library raises an exception for it \<open>main\<close> returns 1 with the library's
  message, not with one about the arguments; with two arguments or more, the first
  goes through \<open>strtol\<close> to bound the capture loop and the second names the files.
\<close>

theorem arguments_read_unguarded:
  "(\<not> pipeline_started s \<longrightarrow> main s argv = main s argv')
   \<and> (pipeline_started s \<and> length argv < 2 \<longrightarrow>
        main s argv = \<lparr>outcome = Undefined, cerr = [], threads = []\<rparr>)
   \<and> (pipeline_started s \<and> length argv = 2 \<longrightarrow>
        main s argv =
          (case string_from_null s of
             None \<Rightarrow> \<lparr>outcome = Undefined, cerr = [], threads = []\<rparr>
           | Some what \<Rightarrow> \<lparr>outcome = Exit 1, cerr = what @ [CHR 0x0A], threads = []\<rparr>))
   \<and> (pipeline_started s \<and> 3 \<le> length argv \<longrightarrow>
        main s argv =
          (case warm_up s 0 0 of
             Inl e \<Rightarrow> handler e
           | Inr k \<Rightarrow> capture_loop s (argv ! 2) (strtol (argv ! 1)) 0 k []))"
proof -
  have a: "main s argv = main s argv'" if "\<not> pipeline_started s"
    using that by (auto simp: main_def pipeline_started_def split: sum.splits option.splits)
  have args: "main s argv =
      (case arg argv 1 of
         None \<Rightarrow> undefined_run
       | Some a1 \<Rightarrow>
           (case arg argv 2 of
              None \<Rightarrow> (case string_from_null s of
                         None \<Rightarrow> undefined_run
                       | Some what \<Rightarrow> handler (Std_exception what))
            | Some raspi_name \<Rightarrow>
                (case warm_up s 0 0 of
                   Inl e \<Rightarrow> handler e
                 | Inr k \<Rightarrow> capture_loop s raspi_name (strtol a1) 0 k [])))"
    if "pipeline_started s"
  proof -
    from that obtain devices where d: "query_devices s = Inr devices" "0 < devices"
      by (auto simp: pipeline_started_def split: sum.splits)
    from that have c: "enable_stream s depth_request = None"
      "enable_stream s color_request = None"
      "pipe_start s [depth_request, color_request] = None"
      by (simp_all add: pipeline_started_def)
    show ?thesis
      using d by (simp add: main_def c Let_def split: option.split)
  qed
  have b: "main s argv = \<lparr>outcome = Undefined, cerr = [], threads = []\<rparr>"
    if "pipeline_started s \<and> length argv < 2"
    using that args by (simp add: arg_def undefined_run_def)
  have c: "main s argv =
          (case string_from_null s of
             None \<Rightarrow> \<lparr>outcome = Undefined, cerr = [], threads = []\<rparr>
           | Some what \<Rightarrow> \<lparr>outcome = Exit 1, cerr = what @ [CHR 0x0A], threads = []\<rparr>)"
    if "pipeline_started s \<and> length argv = 2"
    using that args
    by (simp add: arg_def undefined_run_def EXIT_FAILURE_def endl_def split: option.split)
  have d: "main s argv =
          (case warm_up s 0 0 of
             Inl e \<Rightarrow> handler e
           | Inr k \<Rightarrow> capture_loop s (argv ! 2) (strtol (argv ! 1)) 0 k [])"
    if "pipeline_started s \<and> 3 \<le> length argv"
    using that args by (simp add: arg_def cong: sum.case_cong)
  from a b c d show ?thesis by blast
qed

theorem arguments_read_unguarded_witness:
  "\<not> pipeline_started (example_sdk\<lparr>query_devices := Inr 0\<rparr>)
   \<and> main (example_sdk\<lparr>query_devices := Inr 0\<rparr>) [''capture''] =
       main (example_sdk\<lparr>query_devices := Inr 0\<rparr>) [''capture'', ''1'', ''pi'']
   \<and> pipeline_started example_sdk
   \<and> length [''capture''] < 2
   \<and> main example_sdk [''capture''] = \<lparr>outcome = Undefined, cerr = [], threads = []\<rparr>
   \<and> length [''capture'', ''1''] = 2
   \<and> main example_sdk [''capture'', ''1''] =
       \<lparr>outcome = Exit 1,
        cerr = ''basic_string: construction from null is not valid'' @ [CHR 0x0A],
        threads = []\<rparr>
   \<and> 3 \<le> length [''capture'', ''1'', ''pi'']
   \<and> main example_sdk [''capture'', ''1'', ''pi''] = capture_loop example_sdk ''pi'' 1 0 30 []
   \<and> written_paths (threads (capture_loop example_sdk ''pi'' 1 0 30 [])) =
       [''depth/pi_depth_30.raw'', ''depth_metadata/pi_depth_metadata_30.txt'',
        ''colour/pi_colour_130.png'', ''colour_metadata/pi_colour_metadata_130.txt'']"
proof -
  let ?none = "example_sdk\<lparr>query_devices := Inr 0\<rparr>"
  have w: "warm_up example_sdk 0 0 = Inr 30"
    by (intro warm_up_30) (simp add: example_waits)
  have n: "\<not> pipeline_started ?none"
    by (simp add: pipeline_started_def)
  have lib: "string_from_null example_sdk = Some ''basic_string: construction from null is not valid''"
    by (simp add: example_sdk_def)
  from arguments_read_unguarded [of ?none "[''capture'']" "[''capture'', ''1'', ''pi'']"] n
  have a: "main ?none [''capture''] = main ?none [''capture'', ''1'', ''pi'']"
    by blast
  from arguments_read_unguarded [of example_sdk "[''capture'']"] example_started
  have b: "main example_sdk [''capture''] = \<lparr>outcome = Undefined, cerr = [], threads = []\<rparr>"
    by simp
  from arguments_read_unguarded [of example_sdk "[''capture'', ''1'']"] example_started
  have c: "main example_sdk [''capture'', ''1''] =
       \<lparr>outcome = Exit 1,
        cerr = ''basic_string: construction from null is not valid'' @ [CHR 0x0A],
        threads = []\<rparr>"
    by (simp add: lib)
  from arguments_read_unguarded [of example_sdk "[''capture'', ''1'', ''pi'']"] example_started
  have d: "main example_sdk [''capture'', ''1'', ''pi''] = capture_loop example_sdk ''pi'' 1 0 30 []"
    by (simp add: w strtol_1)
  have e: "written_paths (threads (capture_loop example_sdk ''pi'' 1 0 30 [])) =
       [''depth/pi_depth_30.raw'', ''depth_metadata/pi_depth_metadata_30.txt'',
        ''colour/pi_colour_130.png'', ''colour_metadata/pi_colour_metadata_130.txt'']"
    by code_simp
  from n a example_started b c d e show ?thesis by simp
qed

subsection \<open>Errors\<close>

text \<open>
  As long as no thread exists, a failure ends in a return of 1 with a message on
  \<open>std::cerr\<close>: no device, an exception of the SDK while the devices are queried, the
  streams enabled or the pipeline started, during the warm-up, or in the first call of
  the capture loop, and the first thread that cannot be started.
\<close>

lemma main_no_device:
  "query_devices s = Inr 0 \<Longrightarrow>
   main s argv = \<lparr>outcome = Exit 1, cerr = ''No RealSense devices found!'' @ [CHR 0x0A], threads = []\<rparr>"
  by (simp add: main_def EXIT_FAILURE_def endl_def)

lemma main_query_error:
  "query_devices s = Inl e \<Longrightarrow> main s argv = handler e"
  by (simp add: main_def)

lemma main_start_error:
  assumes "query_devices s = Inr devices" and "0 < devices"
    and "enable_stream s depth_request = None" and "enable_stream s color_request = None"
    and "pipe_start s [depth_request, color_request] = Some e"
  shows "main s argv = handler e"
  using assms by (simp add: main_def)

lemma cerr_handler_rs2:
  "cerr (handler (Rs2_error failed_function failed_args what)) =
     ''RealSense error calling '' @ failed_function @ ''('' @ failed_args @ ''):'' @ [CHR 0x0A]
     @ ''    '' @ what @ [CHR 0x0A]"
  by (simp add: endl_def)

lemma main_warm_up_error:
  assumes "pipeline_started s" and "arg argv 1 = Some a1" and "arg argv 2 = Some raspi_name"
    and "warm_up s 0 0 = Inl e"
  shows "main s argv = handler e"
proof -
  from assms(1) obtain devices where d: "query_devices s = Inr devices" "0 < devices"
    by (auto simp: pipeline_started_def split: sum.splits)
  from assms(1) have c: "enable_stream s depth_request = None"
    "enable_stream s color_request = None"
    "pipe_start s [depth_request, color_request] = None"
    by (simp_all add: pipeline_started_def)
  show ?thesis
    using d assms(2,3) by (simp add: main_def c assms(4) Let_def)
qed

lemma capture_loop_first_error:
  "0 < num_frames \<Longrightarrow> wait_for_frames s k = Inl e \<Longrightarrow>
   capture_loop s raspi_name num_frames 0 k [] = handler e"
  by (subst capture_loop.simps) (simp add: unwind_def)

lemma capture_loop_first_thread_error:
  "0 < num_frames \<Longrightarrow> wait_for_frames s k = Inr data \<Longrightarrow> start_thread s 0 = Some what \<Longrightarrow>
   capture_loop s raspi_name num_frames 0 k [] = handler (Std_exception what)"
  by (subst capture_loop.simps) (simp add: unwind_def)

text \<open>
  Once a thread exists, an exception in the capture loop, of \<open>wait_for_frames\<close> or of
  the start of a thread, ends the process without reaching a handler.
\<close>

lemma capture_loop_later_error:
  "i < num_frames \<Longrightarrow> wait_for_frames s k = Inl e \<Longrightarrow> ts \<noteq> [] \<Longrightarrow>
   capture_loop s raspi_name num_frames i k ts = \<lparr>outcome = Terminate, cerr = [], threads = ts\<rparr>"
  by (subst capture_loop.simps) (simp add: unwind_def)

lemma capture_loop_later_thread_error:
  "i < num_frames \<Longrightarrow> wait_for_frames s k = Inr data \<Longrightarrow> ts \<noteq> [] \<Longrightarrow>
   start_thread s (length ts) = Some what \<Longrightarrow>
   capture_loop s raspi_name num_frames i k ts = \<lparr>outcome = Terminate, cerr = [], threads = ts\<rparr>"
  by (subst capture_loop.simps) (simp add: unwind_def)

text \<open>
  C2 fails on an acquisition error in the capture loop once a thread exists. With a
  frame count of 2 and a device whose call number 31 of \<open>wait_for_frames\<close> raises a
  \<open>rs2::error\<close> (the second frameset to capture), the exception leaves \<open>main\<close> while the
  two threads of the first captured frameset are in the vector and not joined: the
  process is terminated, the handler that would print the error and return 1 is not
  entered, and \<open>main\<close> has written nothing to \<open>std::cerr\<close>.
\<close>

theorem acquisition_error_terminates:
  "wait_for_frames stalling_sdk 31 =
     Inl (Rs2_error ''rs2_pipeline_wait_for_frames'' ''pipe:0x1'' ''Frame did not arrive in time'')
   \<and> outcome (main stalling_sdk [''capture'', ''2'', ''pi'']) = Terminate
   \<and> cerr (main stalling_sdk [''capture'', ''2'', ''pi'']) = []"
  by code_simp

subsection \<open>File names\<close>

text \<open>
  C7. The files of a depth frame are \<open>depth/<name>_depth_<number>.raw\<close> and
  \<open>depth_metadata/<name>_depth_metadata_<number>.txt\<close>, those of a colour frame
  \<open>colour/<name>_colour_<number>.png\<close> and
  \<open>colour_metadata/<name>_colour_metadata_<number>.txt\<close>, with \<open><name>\<close> the second
  argument and \<open><number>\<close> the frame number in decimal (for depth, the number of the
  frame that leaves the filter chain). When, from the first captured frameset on, the
  frame numbers increase strictly along each stream, all the paths written by the
  threads of a run are different: no file is written twice.
\<close>

theorem file_names_unique:
  assumes "\<forall>j k fj fk. 30 \<le> j \<and> j < k \<and> wait_for_frames s j = Inr fj \<and> wait_for_frames s k = Inr fk
     \<longrightarrow> get_frame_number (depth_chain s (get_depth_frame fj))
           < get_frame_number (depth_chain s (get_depth_frame fk))
         \<and> get_frame_number (get_color_frame fj) < get_frame_number (get_color_frame fk)"
  shows "written_paths [save_frame_depth_data s raspi_name frame] =
           (if is_video_frame (depth_chain s frame) then
              [''depth/'' @ raspi_name @ ''_depth_''
                 @ string_of_nat (get_frame_number (depth_chain s frame)) @ ''.raw'',
               ''depth_metadata/'' @ raspi_name @ ''_depth_metadata_''
                 @ string_of_nat (get_frame_number (depth_chain s frame)) @ ''.txt'']
            else [])
       \<and> written_paths [save_frame_color_data s raspi_name frame] =
           (if is_video_frame frame then
              [''colour/'' @ raspi_name @ ''_colour_''
                 @ string_of_nat (get_frame_number frame) @ ''.png'',
               ''colour_metadata/'' @ raspi_name @ ''_colour_metadata_''
                 @ string_of_nat (get_frame_number frame) @ ''.txt'']
            else [])
       \<and> distinct (written_paths (threads (main s argv)))"
proof -
  from main_threads [of s argv] obtain name m rest
    where "concat (map (spawned s name) [30..<30 + m]) = threads (main s argv) @ rest"
    by blast
  with distinct_paths_range [OF assms, of name m]
  have "distinct (written_paths (threads (main s argv) @ rest))" by simp
  then have "distinct (written_paths (threads (main s argv)))"
    by (simp add: written_paths_append)
  then show ?thesis
    by (simp only: written_paths_depth written_paths_color)
qed

theorem file_names_unique_witness:
  "written_paths [save_frame_depth_data example_sdk ''pi'' (example_frame RS2_STREAM_DEPTH 30 True)] =
     [''depth/pi_depth_30.raw'', ''depth_metadata/pi_depth_metadata_30.txt'']
   \<and> written_paths [save_frame_color_data example_sdk ''pi'' (example_frame RS2_STREAM_COLOR 130 True)] =
     [''colour/pi_colour_130.png'', ''colour_metadata/pi_colour_metadata_130.txt'']
   \<and> distinct (written_paths (threads (main example_sdk [''capture'', ''3'', ''pi''])))"
proof -
  have ch: "depth_chain example_sdk f = f" for f
    by (simp add: depth_chain_def example_sdk_def)
  have h: "\<forall>j k fj fk. 30 \<le> j \<and> j < k \<and> wait_for_frames example_sdk j = Inr fj
        \<and> wait_for_frames example_sdk k = Inr fk
     \<longrightarrow> get_frame_number (depth_chain example_sdk (get_depth_frame fj))
           < get_frame_number (depth_chain example_sdk (get_depth_frame fk))
         \<and> get_frame_number (get_color_frame fj) < get_frame_number (get_color_frame fk)"
    unfolding ch by (auto simp: example_sdk_def example_frame_def)
  from file_names_unique [OF h, of "''pi''" "example_frame RS2_STREAM_DEPTH 30 True"
      "[''capture'', ''3'', ''pi'']"]
  have d: "written_paths [save_frame_depth_data example_sdk ''pi'' (example_frame RS2_STREAM_DEPTH 30 True)] =
     [''depth/pi_depth_30.raw'', ''depth_metadata/pi_depth_metadata_30.txt'']"
    and u: "distinct (written_paths (threads (main example_sdk [''capture'', ''3'', ''pi''])))"
    by (simp_all add: ch example_frame_def string_of_nat_30)
  from file_names_unique [OF h, of "''pi''" "example_frame RS2_STREAM_COLOR 130 True"
      "[''capture'', ''3'', ''pi'']"]
  have c: "written_paths [save_frame_color_data example_sdk ''pi'' (example_frame RS2_STREAM_COLOR 130 True)] =
     [''colour/pi_colour_130.png'', ''colour_metadata/pi_colour_metadata_130.txt'']"
    by (simp add: ch example_frame_def string_of_nat_130)
  from d c u show ?thesis by blast
qed

end
